theory Spec2Isabelle
  imports Main
begin

section \<open>Python values used by the backup collection subsystem\<close>

text \<open>
  Identifier-like Python strings (vendor tags, commands, paths, messages) are
  \<open>string\<close>s whose characters are code points below 256. Device output and file
  content are lists of code points (\<open>pystr\<close>), and \<open>bytes\<close> are lists of
  8-bit characters. Exceptions are values: every \<open>raise\<close> of the source is an
  \<open>Inl\<close> of type \<open>exn\<close>, and \<open>str_exn\<close> is Python's \<open>str(e)\<close>.
\<close>

type_synonym pystr = "nat list"
type_synonym bytes = "char list"

datatype exn =
    NetmikoAuthenticationException string
  | NetmikoTimeoutException string
  | ConnectionError string
  | RuntimeError string
  | ValueError string
  | FileExistsError string
  | FileNotFoundError string
  | NotADirectoryError string
  | IsADirectoryError string
  | PermissionError string
  | UnicodeEncodeError string
  | UnicodeDecodeError string
  | AttributeError string
  | IntegrityError string
  | IndexError string
  | OtherException string

fun str_exn :: "exn \<Rightarrow> string" where
  "str_exn (NetmikoAuthenticationException m) = m"
| "str_exn (NetmikoTimeoutException m) = m"
| "str_exn (ConnectionError m) = m"
| "str_exn (RuntimeError m) = m"
| "str_exn (ValueError m) = m"
| "str_exn (FileExistsError m) = m"
| "str_exn (FileNotFoundError m) = m"
| "str_exn (NotADirectoryError m) = m"
| "str_exn (IsADirectoryError m) = m"
| "str_exn (PermissionError m) = m"
| "str_exn (UnicodeEncodeError m) = m"
| "str_exn (UnicodeDecodeError m) = m"
| "str_exn (AttributeError m) = m"
| "str_exn (IntegrityError m) = m"
| "str_exn (IndexError m) = m"
| "str_exn (OtherException m) = m"

text \<open>\<open>str.lower()\<close> on code points below 256: A-Z and the Latin-1 capitals.\<close>

definition lower_char :: "char \<Rightarrow> char" where
  "lower_char c =
     (let n = (of_char c :: nat)
      in if (65 \<le> n \<and> n \<le> 90) \<or> (192 \<le> n \<and> n \<le> 222 \<and> n \<noteq> 215)
         then char_of (n + 32) else c)"

definition lower :: "string \<Rightarrow> string" where
  "lower s = map lower_char s"

text \<open>\<open>str.strip()\<close> and the whitespace it removes (below 256).\<close>

definition is_space :: "char \<Rightarrow> bool" where
  "is_space c = ((of_char c :: nat) \<in> {9, 10, 11, 12, 13, 28, 29, 30, 31, 32, 133, 160})"

definition strip :: "string \<Rightarrow> string" where
  "strip s = rev (dropWhile is_space (rev (dropWhile is_space s)))"

text \<open>\<open>str(n)\<close> for an integer: its decimal digits.\<close>

definition digit_char :: "nat \<Rightarrow> char" where
  "digit_char d = char_of (48 + d)"

function str_nat :: "nat \<Rightarrow> string" where
  "str_nat n = (if n < 10 then [digit_char n] else str_nat (n div 10) @ [digit_char (n mod 10)])"
  by pat_completeness auto
termination
  by (relation "measure (\<lambda>n. n)") auto

declare str_nat.simps [simp del]

definition str_int :: "int \<Rightarrow> string" where
  "str_int i = (if i < 0 then CHR ''-'' # str_nat (nat (- i)) else str_nat (nat i))"

definition ascii :: "string \<Rightarrow> pystr" where
  "ascii s = map of_char s"

section \<open>config.py: the compiled vendor table\<close>

record vendor_config =
  connection_types :: "string list"
  backup_command :: string
  output_extension :: string
  device_type :: string

definition VENDOR_COMMANDS_items :: "(string \<times> vendor_config) list" where
  "VENDOR_COMMANDS_items =
    [(''mikrotik'', \<lparr>connection_types = [''ssh''], backup_command = ''/export'',
        output_extension = ''.rsc'', device_type = ''mikrotik_routeros''\<rparr>),
     (''cisco'', \<lparr>connection_types = [''ssh'', ''telnet''], backup_command = ''show running-config'',
        output_extension = ''.txt'', device_type = ''cisco_ios''\<rparr>),
     (''huawei'', \<lparr>connection_types = [''ssh'', ''telnet''],
        backup_command = ''display current-configuration'',
        output_extension = ''.txt'', device_type = ''huawei''\<rparr>),
     (''zte'', \<lparr>connection_types = [''ssh'', ''telnet''], backup_command = ''show running-config'',
        output_extension = ''.txt'', device_type = ''zte_zxros''\<rparr>),
     (''juniper'', \<lparr>connection_types = [''ssh''],
        backup_command = ''show configuration | display set'',
        output_extension = ''.txt'', device_type = ''juniper_junos''\<rparr>),
     (''generic'', \<lparr>connection_types = [''ssh'', ''telnet''], backup_command = ''show running-config'',
        output_extension = ''.txt'', device_type = ''cisco_ios''\<rparr>),
     (''generic-saved'', \<lparr>connection_types = [''ssh'', ''telnet''],
        backup_command = ''show saved-config'',
        output_extension = ''.txt'', device_type = ''cisco_ios''\<rparr>),
     (''generic-startup'', \<lparr>connection_types = [''ssh'', ''telnet''],
        backup_command = ''show startup-config'',
        output_extension = ''.txt'', device_type = ''cisco_ios''\<rparr>)]"

definition VENDOR_COMMANDS :: "string \<Rightarrow> vendor_config option" where
  "VENDOR_COMMANDS = map_of VENDOR_COMMANDS_items"

definition MAX_RETRY :: int where
  "MAX_RETRY = 1"

definition SSH_TIMEOUT :: nat where
  "SSH_TIMEOUT = 30"

definition COMMAND_TIMEOUT :: nat where
  "COMMAND_TIMEOUT = 60"

definition DEFAULT_SSH_PORT :: int where
  "DEFAULT_SSH_PORT = 22"

definition DEFAULT_TELNET_PORT :: int where
  "DEFAULT_TELNET_PORT = 23"

section \<open>app/adapters.py: the vendor adapters\<close>

datatype adapter_class =
    MikroTikAdapter | CiscoAdapter | HuaweiAdapter | ZTEAdapter | JuniperAdapter
  | GenericAdapter | GenericSavedAdapter | GenericStartupAdapter

fun vendor_name :: "adapter_class \<Rightarrow> string" where
  "vendor_name MikroTikAdapter = ''mikrotik''"
| "vendor_name CiscoAdapter = ''cisco''"
| "vendor_name HuaweiAdapter = ''huawei''"
| "vendor_name ZTEAdapter = ''zte''"
| "vendor_name JuniperAdapter = ''juniper''"
| "vendor_name GenericAdapter = ''generic''"
| "vendor_name GenericSavedAdapter = ''generic-saved''"
| "vendor_name GenericStartupAdapter = ''generic-startup''"

fun adapter_device_type :: "adapter_class \<Rightarrow> string" where
  "adapter_device_type MikroTikAdapter = ''mikrotik_routeros''"
| "adapter_device_type CiscoAdapter = ''cisco_ios''"
| "adapter_device_type HuaweiAdapter = ''huawei''"
| "adapter_device_type ZTEAdapter = ''zte_zxros''"
| "adapter_device_type JuniperAdapter = ''juniper_junos''"
| "adapter_device_type GenericAdapter = ''cisco_ios''"
| "adapter_device_type GenericSavedAdapter = ''cisco_ios''"
| "adapter_device_type GenericStartupAdapter = ''cisco_ios''"

text \<open>The \<open>backup_command\<close> property of each adapter class.\<close>

fun adapter_backup_command :: "adapter_class \<Rightarrow> string" where
  "adapter_backup_command MikroTikAdapter = ''/export''"
| "adapter_backup_command CiscoAdapter = ''show running-config''"
| "adapter_backup_command HuaweiAdapter = ''display current-configuration''"
| "adapter_backup_command ZTEAdapter = ''file upload cfg-startup startrun.dat ftp''"
| "adapter_backup_command JuniperAdapter = ''show configuration | display set''"
| "adapter_backup_command GenericAdapter = ''show running-config''"
| "adapter_backup_command GenericSavedAdapter = ''show saved-config''"
| "adapter_backup_command GenericStartupAdapter = ''show startup-config''"

definition VENDOR_ADAPTERS_items :: "(string \<times> adapter_class) list" where
  "VENDOR_ADAPTERS_items =
    [(''mikrotik'', MikroTikAdapter), (''cisco'', CiscoAdapter), (''huawei'', HuaweiAdapter),
     (''zte'', ZTEAdapter), (''juniper'', JuniperAdapter), (''generic'', GenericAdapter),
     (''generic-saved'', GenericSavedAdapter), (''generic-startup'', GenericStartupAdapter)]"

definition VENDOR_ADAPTERS :: "string \<Rightarrow> adapter_class option" where
  "VENDOR_ADAPTERS = map_of VENDOR_ADAPTERS_items"

definition get_adapter :: "string \<Rightarrow> exn + adapter_class" where
  "get_adapter vendor =
     (case VENDOR_ADAPTERS (lower vendor) of
        None \<Rightarrow> Inl (ValueError (''Unsupported vendor: '' @ lower vendor))
      | Some cls \<Rightarrow> Inr cls)"


subsection \<open>Codecs of the Python runtime used by the adapters and the store\<close>

text \<open>
  \<open>str.encode()\<close> (UTF-8, strict): a lone surrogate raises UnicodeEncodeError. A
  Python string never holds a code point from 0x110000 on; the model rejects one too.
\<close>

definition utf8_cp :: "nat \<Rightarrow> exn + bytes" where
  "utf8_cp cp =
     (if cp < 0x80 then Inr [char_of cp]
      else if cp < 0x800 then Inr [char_of (0xC0 + cp div 64), char_of (0x80 + cp mod 64)]
      else if cp < 0x10000 then
        (if 0xD800 \<le> cp \<and> cp \<le> 0xDFFF
         then Inl (UnicodeEncodeError ''surrogates not allowed'')
         else Inr [char_of (0xE0 + cp div 4096), char_of (0x80 + (cp div 64) mod 64),
                   char_of (0x80 + cp mod 64)])
      else if cp < 0x110000 then
        Inr [char_of (0xF0 + cp div 262144), char_of (0x80 + (cp div 4096) mod 64),
             char_of (0x80 + (cp div 64) mod 64), char_of (0x80 + cp mod 64)]
      else Inl (UnicodeEncodeError ''code point not in range(0x110000)''))"

fun utf8_encode :: "pystr \<Rightarrow> exn + bytes" where
  "utf8_encode [] = Inr []"
| "utf8_encode (c # cs) =
     (case utf8_cp c of
        Inl e \<Rightarrow> Inl e
      | Inr bs \<Rightarrow> (case utf8_encode cs of Inl e \<Rightarrow> Inl e | Inr rest \<Rightarrow> Inr (bs @ rest)))"

text \<open>
  One step of the UTF-8 decoder: the code point at the head of the input (or \<open>None\<close>
  for an ill-formed sequence) and the number of bytes it covers. An ill-formed sequence
  covers its maximal well-formed prefix, at least one byte, which is what
  \<open>errors='replace'\<close> turns into one U+FFFD.
\<close>

definition is_cont :: "nat \<Rightarrow> nat \<Rightarrow> nat \<Rightarrow> bool" where
  "is_cont lo hi b = (lo \<le> b \<and> b \<le> hi)"

fun utf8_step :: "nat list \<Rightarrow> nat option \<times> nat" where
  "utf8_step [] = (None, 0)"
| "utf8_step (b0 # rest) =
     (if b0 < 0x80 then (Some b0, 1)
      else if 0xC2 \<le> b0 \<and> b0 \<le> 0xDF then
        (case rest of
           b1 # _ \<Rightarrow> if is_cont 0x80 0xBF b1 then (Some ((b0 - 0xC0) * 64 + (b1 - 0x80)), 2)
                      else (None, 1)
         | [] \<Rightarrow> (None, 1))
      else if 0xE0 \<le> b0 \<and> b0 \<le> 0xEF then
        (let lo = (if b0 = 0xE0 then 0xA0 else 0x80); hi = (if b0 = 0xED then 0x9F else 0xBF)
         in case rest of
              b1 # rest1 \<Rightarrow>
                if is_cont lo hi b1 then
                  (case rest1 of
                     b2 # _ \<Rightarrow>
                       if is_cont 0x80 0xBF b2
                       then (Some ((b0 - 0xE0) * 4096 + (b1 - 0x80) * 64 + (b2 - 0x80)), 3)
                       else (None, 2)
                   | [] \<Rightarrow> (None, 2))
                else (None, 1)
            | [] \<Rightarrow> (None, 1))
      else if 0xF0 \<le> b0 \<and> b0 \<le> 0xF4 then
        (let lo = (if b0 = 0xF0 then 0x90 else 0x80); hi = (if b0 = 0xF4 then 0x8F else 0xBF)
         in case rest of
              b1 # rest1 \<Rightarrow>
                if is_cont lo hi b1 then
                  (case rest1 of
                     b2 # rest2 \<Rightarrow>
                       if is_cont 0x80 0xBF b2 then
                         (case rest2 of
                            b3 # _ \<Rightarrow>
                              if is_cont 0x80 0xBF b3
                              then (Some ((b0 - 0xF0) * 262144 + (b1 - 0x80) * 4096
                                          + (b2 - 0x80) * 64 + (b3 - 0x80)), 4)
                              else (None, 3)
                          | [] \<Rightarrow> (None, 3))
                       else (None, 2)
                   | [] \<Rightarrow> (None, 2))
                else (None, 1)
            | [] \<Rightarrow> (None, 1))
      else (None, 1))"

lemma utf8_step_progress: "bs \<noteq> [] \<Longrightarrow> 0 < snd (utf8_step bs)"
  by (cases bs) (auto simp: Let_def split: list.splits)

lemma utf8_step_drop:
  assumes "bs \<noteq> []" and "(r, n) = utf8_step bs"
  shows "length bs - n < length bs"
proof -
  have "0 < n"
    using utf8_step_progress [OF assms(1)] assms(2) [symmetric] by simp
  moreover have "0 < length bs"
    using assms(1) by simp
  ultimately show ?thesis by arith
qed

text \<open>\<open>bytes.decode('utf-8', errors='replace')\<close> and the strict \<open>bytes.decode('utf-8')\<close>.\<close>

function decode_replace_nat :: "nat list \<Rightarrow> pystr" where
  "decode_replace_nat bs =
     (if bs = [] then []
      else (case utf8_step bs of
              (Some cp, n) \<Rightarrow> cp # decode_replace_nat (drop n bs)
            | (None, n) \<Rightarrow> 0xFFFD # decode_replace_nat (drop n bs)))"
  by pat_completeness auto
termination
  by (relation "measure length") (auto intro: utf8_step_drop)

declare decode_replace_nat.simps [simp del]

function decode_strict_nat :: "nat list \<Rightarrow> exn + pystr" where
  "decode_strict_nat bs =
     (if bs = [] then Inr []
      else (case utf8_step bs of
              (Some cp, n) \<Rightarrow>
                (case decode_strict_nat (drop n bs) of
                   Inl e \<Rightarrow> Inl e
                 | Inr cs \<Rightarrow> Inr (cp # cs))
            | (None, n) \<Rightarrow> Inl (UnicodeDecodeError ''invalid utf-8 sequence'')))"
  by pat_completeness auto
termination
  by (relation "measure length") (auto intro: utf8_step_drop)

declare decode_strict_nat.simps [simp del]

definition decode_replace :: "bytes \<Rightarrow> pystr" where
  "decode_replace bs = decode_replace_nat (map of_char bs)"

definition decode_strict :: "bytes \<Rightarrow> exn + pystr" where
  "decode_strict bs = decode_strict_nat (map of_char bs)"

text \<open>
  \<open>int(s)\<close> for a string of code points below 256: surrounding whitespace, one
  optional sign, decimal digits with single underscores between them.
\<close>

definition is_digit :: "char \<Rightarrow> bool" where
  "is_digit c = (48 \<le> (of_char c :: nat) \<and> (of_char c :: nat) \<le> 57)"

fun int_body_ok :: "string \<Rightarrow> bool" where
  "int_body_ok [] = False"
| "int_body_ok [c] = is_digit c"
| "int_body_ok (c # d # cs) =
     (is_digit c \<and> (if d = CHR ''_'' then int_body_ok cs else int_body_ok (d # cs)))"

definition digits_value :: "string \<Rightarrow> nat" where
  "digits_value s = foldl (\<lambda>acc c. 10 * acc + ((of_char c :: nat) - 48)) 0 (filter is_digit s)"

definition py_int :: "string \<Rightarrow> exn + int" where
  "py_int s =
     (let t = strip s;
          neg = (case t of c # _ \<Rightarrow> c = CHR ''-'' | [] \<Rightarrow> False);
          body = (case t of c # r \<Rightarrow> if c = CHR ''-'' \<or> c = CHR ''+'' then r else t | [] \<Rightarrow> t)
      in if int_body_ok body
         then Inr (if neg then - int (digits_value body) else int (digits_value body))
         else Inl (ValueError (''invalid literal for int() with base 10: '' @ s)))"

record datetime =
  year :: nat
  month :: nat
  day :: nat
  hour :: nat
  minute :: nat
  second :: nat
  microsecond :: nat


subsection \<open>The device and its surroundings during one capture attempt\<close>

text \<open>
  \<open>device_info\<close> is the dict built by \<open>_prepare_device_info\<close>. \<open>attempt_env\<close>
  holds everything outside the program that one attempt observes: the process
  environment, the state of the FTP service, the credential decryption, how the device
  answers, what appears at the relay drop location (\<open>inbox t\<close> is the content of
  \<open>startrun.dat\<close> \<open>t\<close> seconds after polling starts, \<open>None\<close> while it is absent),
  the clock, the SHA-256 hex digest of hashlib and the serialisation of the json module.
\<close>

record metadata =
  md_vendor :: string
  md_device_id :: int
  md_device_ip :: string
  md_connection_type :: string
  md_backup_command :: string
  md_timestamp :: datetime
  md_execution_time_seconds :: nat
  md_status :: string
  md_checksum_sha256 :: string
  md_file_name :: string
  md_leuitcss_version :: string

record device_info =
  di_device_id :: int
  di_ip_address :: string
  di_port :: "int option"
  di_username :: string
  di_password :: string
  di_enable_password :: "string option"
  di_connection_type :: string

record conn_params =
  cp_device_type :: string
  cp_host :: string
  cp_port :: int
  cp_username :: string
  cp_password :: string
  cp_timeout :: nat
  cp_legacy_ssh :: bool
  cp_secret :: "string option"

datatype session = Session conn_params

record attempt_env =
  environ :: "string \<Rightarrow> string option"
  ftp_service_active :: bool
  autodetect_ip :: "exn + string"
  decrypt_credential :: "string \<Rightarrow> exn + string"
  ConnectHandler :: "conn_params \<Rightarrow> exn option"
  enable :: "exn option"
  send_command :: "string \<Rightarrow> exn + pystr"
  session_seconds :: nat
  inbox_mkdir :: "exn option"
  inbox :: "nat \<Rightarrow> bytes option"
  utcnow :: datetime
  sha256_hexdigest :: "bytes \<Rightarrow> string"
  json_dump :: "metadata \<Rightarrow> bytes"

text \<open>
  The adapter object: its \<open>connection\<close> attribute, and a log of the command strings
  handed to \<open>send_command\<close>, oldest first (the log is not in the source; it records
  what reaches the device).
\<close>

record adapter =
  connection :: "session option"
  sent :: "string list"

definition new_adapter :: adapter where
  "new_adapter = \<lparr>connection = None, sent = []\<rparr>"

definition environ_get :: "attempt_env \<Rightarrow> string \<Rightarrow> string \<Rightarrow> string" where
  "environ_get env k d = (case environ env k of None \<Rightarrow> d | Some v \<Rightarrow> v)"

definition get_connection_params :: "attempt_env \<Rightarrow> adapter_class \<Rightarrow> device_info \<Rightarrow> exn + conn_params" where
  "get_connection_params env cls info =
     (let connection_type = di_connection_type info;
          port = (case di_port info of
                    None \<Rightarrow> (if connection_type = ''telnet'' then DEFAULT_TELNET_PORT else DEFAULT_SSH_PORT)
                  | Some p \<Rightarrow> (if p = 0
                              then (if connection_type = ''telnet'' then DEFAULT_TELNET_PORT
                                    else DEFAULT_SSH_PORT)
                              else p))
      in case decrypt_credential env (di_username info) of
           Inl e \<Rightarrow> Inl e
         | Inr username \<Rightarrow>
          (case decrypt_credential env (di_password info) of
             Inl e \<Rightarrow> Inl e
           | Inr password \<Rightarrow>
              (let params = \<lparr>cp_device_type =
                               (if connection_type = ''telnet''
                                then adapter_device_type cls @ ''_telnet''
                                else adapter_device_type cls),
                             cp_host = di_ip_address info, cp_port = port,
                             cp_username = username, cp_password = password,
                             cp_timeout = SSH_TIMEOUT,
                             cp_legacy_ssh = (connection_type \<noteq> ''telnet''),
                             cp_secret = None\<rparr>
               in case di_enable_password info of
                    None \<Rightarrow> Inr params
                  | Some ep \<Rightarrow>
                      if ep = [] then Inr params
                      else (case decrypt_credential env ep of
                              Inl e \<Rightarrow> Inl e
                            | Inr secret \<Rightarrow> Inr (params\<lparr>cp_secret := Some secret\<rparr>)))))"

text \<open>\<open>VendorAdapter.connect\<close>: every failure is re-raised as a ConnectionError.\<close>

definition connect_error :: "device_info \<Rightarrow> exn \<Rightarrow> exn" where
  "connect_error info e =
     (case e of
        NetmikoAuthenticationException _ \<Rightarrow>
          ConnectionError (''Authentication failed for '' @ di_ip_address info)
      | NetmikoTimeoutException _ \<Rightarrow>
          ConnectionError (''Connection timeout for '' @ di_ip_address info)
      | _ \<Rightarrow> ConnectionError (''Connection failed: '' @ str_exn e))"

definition base_connect :: "attempt_env \<Rightarrow> adapter_class \<Rightarrow> device_info \<Rightarrow> adapter \<Rightarrow> (exn + bool) \<times> adapter" where
  "base_connect env cls info a =
     (case get_connection_params env cls info of
        Inl e \<Rightarrow> (Inl (connect_error info e), a)
      | Inr params \<Rightarrow>
          (case ConnectHandler env params of
             Some e \<Rightarrow> (Inl (connect_error info e), a)
           | None \<Rightarrow> (Inr True, a\<lparr>connection := Some (Session params)\<rparr>)))"

text \<open>\<open>CiscoAdapter.connect\<close> enters enable mode after the base connect.\<close>

definition connect :: "attempt_env \<Rightarrow> adapter_class \<Rightarrow> device_info \<Rightarrow> adapter \<Rightarrow> (exn + bool) \<times> adapter" where
  "connect env cls info a =
     (if cls = CiscoAdapter then
        (case base_connect env cls info a of
           (Inl e, a1) \<Rightarrow> (Inl e, a1)
         | (Inr r, a1) \<Rightarrow>
             (if di_enable_password info \<noteq> None \<and> di_enable_password info \<noteq> Some []
              then (case enable env of Some e \<Rightarrow> (Inl e, a1) | None \<Rightarrow> (Inr r, a1))
              else (Inr r, a1)))
      else base_connect env cls info a)"

text \<open>
  \<open>disconnect\<close>: an exception of the session's own \<open>disconnect()\<close> is swallowed
  (\<open>except: pass\<close>) and the \<open>finally\<close> sets the attribute to None either way.
\<close>

definition disconnect :: "adapter \<Rightarrow> adapter" where
  "disconnect a = (case connection a of None \<Rightarrow> a | Some c \<Rightarrow> a\<lparr>connection := None\<rparr>)"

definition execute_backup :: "attempt_env \<Rightarrow> adapter_class \<Rightarrow> adapter \<Rightarrow> (exn + pystr \<times> nat) \<times> adapter" where
  "execute_backup env cls a =
     (case connection a of
        None \<Rightarrow> (Inl (RuntimeError ''Not connected to device''), a)
      | Some c \<Rightarrow>
          (let a1 = a\<lparr>sent := sent a @ [adapter_backup_command cls]\<rparr>
           in case send_command env (adapter_backup_command cls) of
                Inl e \<Rightarrow> (Inl e, a1)
              | Inr out \<Rightarrow> (Inr (out, session_seconds env), a1)))"

record backup_result =
  br_success :: bool
  br_output :: "pystr option"
  br_execution_time :: nat
  br_checksum :: "string option"
  br_error :: "string option"
  br_timestamp :: datetime
  br_file_path :: "string option"

definition init_backup_result :: "attempt_env \<Rightarrow> backup_result" where
  "init_backup_result env =
     \<lparr>br_success = False, br_output = None, br_execution_time = 0, br_checksum = None,
      br_error = None, br_timestamp = utcnow env, br_file_path = None\<rparr>"

text \<open>The \<open>try\<close> block of \<open>VendorAdapter.backup\<close>, then the whole method.\<close>

definition base_backup_try :: "attempt_env \<Rightarrow> adapter_class \<Rightarrow> device_info \<Rightarrow> adapter \<Rightarrow> (exn + pystr \<times> nat \<times> string) \<times> adapter" where
  "base_backup_try env cls info a =
     (case connect env cls info a of
        (Inl e, a1) \<Rightarrow> (Inl e, a1)
      | (Inr _, a1) \<Rightarrow>
          (case execute_backup env cls a1 of
             (Inl e, a2) \<Rightarrow> (Inl e, a2)
           | (Inr (out, exec_time), a2) \<Rightarrow>
               (case utf8_encode out of
                  Inl e \<Rightarrow> (Inl e, a2)
                | Inr bs \<Rightarrow> (Inr (out, exec_time, sha256_hexdigest env bs), a2))))"

definition base_backup :: "attempt_env \<Rightarrow> adapter_class \<Rightarrow> device_info \<Rightarrow> adapter \<Rightarrow> backup_result \<times> adapter" where
  "base_backup env cls info a =
     (let result = init_backup_result env
      in case base_backup_try env cls info a of
           (Inr (out, exec_time, checksum), a1) \<Rightarrow>
             (result\<lparr>br_success := True, br_output := Some out, br_execution_time := exec_time,
                     br_checksum := Some checksum\<rparr>,
              disconnect a1)
         | (Inl e, a1) \<Rightarrow> (result\<lparr>br_error := Some (str_exn e)\<rparr>, disconnect a1))"


subsection \<open>ZTEAdapter: the relay variant\<close>

definition FTP_POLL_TIMEOUT :: nat where
  "FTP_POLL_TIMEOUT = 120"

definition FTP_POLL_INTERVAL :: nat where
  "FTP_POLL_INTERVAL = 3"

record ftp_config =
  ftp_enabled :: bool
  ftp_port :: int
  ftp_user :: string
  ftp_password :: string
  ftp_root :: string

definition get_ftp_config :: "attempt_env \<Rightarrow> exn + ftp_config" where
  "get_ftp_config env =
     (case py_int (environ_get env ''LEUITCSS_FTP_PORT'' ''21'') of
        Inl e \<Rightarrow> Inl e
      | Inr p \<Rightarrow>
          Inr \<lparr>ftp_enabled = ftp_service_active env, ftp_port = p,
               ftp_user = environ_get env ''LEUITCSS_FTP_USER'' ''leuitcss'',
               ftp_password = environ_get env ''LEUITCSS_FTP_PASSWORD'' [],
               ftp_root = environ_get env ''LEUITCSS_FTP_ROOT'' ''/var/lib/leuitcss/ftp-ingestion''\<rparr>)"

definition get_server_ip :: "attempt_env \<Rightarrow> exn + string" where
  "get_server_ip env =
     (let manual_ip = strip (environ_get env ''LEUITCSS_SERVER_IP'' [])
      in if manual_ip \<noteq> [] then Inr manual_ip else autodetect_ip env)"

text \<open>
  \<open>_get_ftp_inbox_path\<close> creates the inbox directory (\<open>inbox_mkdir\<close> is the
  exception of that \<open>mkdir\<close>, if any) and returns its path as a string.
\<close>

definition get_ftp_inbox_path :: "attempt_env \<Rightarrow> int \<Rightarrow> exn + string" where
  "get_ftp_inbox_path env device_id =
     (case get_ftp_config env of
        Inl e \<Rightarrow> Inl e
      | Inr cfg \<Rightarrow>
          (case inbox_mkdir env of
             Some e \<Rightarrow> Inl e
           | None \<Rightarrow> Inr (ftp_root cfg @ ''/zte/'' @ str_int device_id)))"

definition build_ftp_upload_command :: "attempt_env \<Rightarrow> int \<Rightarrow> exn + string" where
  "build_ftp_upload_command env device_id =
     (case get_ftp_config env of
        Inl e \<Rightarrow> Inl e
      | Inr cfg \<Rightarrow>
          (case get_server_ip env of
             Inl e \<Rightarrow> Inl e
           | Inr server_ip \<Rightarrow>
               (let ftp_path = ''zte/'' @ str_int device_id @ ''/''
                in Inr (''file upload cfg-startup startrun.dat ftp ''
                        @ ''ipaddress '' @ server_ip @ '' ''
                        @ ''path '' @ ftp_path @ '' ''
                        @ ''user '' @ ftp_user cfg @ '' ''
                        @ ''password '' @ ftp_password cfg))))"

text \<open>
  \<open>_poll_for_file\<close>. The argument \<open>t\<close> is \<open>time.time() - start_time\<close> in whole
  seconds; the clock advances by the two \<open>sleep\<close> calls only. The result is the
  returned path (\<open>None\<close> on timeout) together with the clock at the return. A file that
  vanishes between \<open>exists()\<close> and \<open>stat()\<close> raises FileNotFoundError, also with the clock.
\<close>

function poll_for_file :: "(nat \<Rightarrow> bytes option) \<Rightarrow> string \<Rightarrow> nat \<Rightarrow> exn \<times> nat + string option \<times> nat" where
  "poll_for_file file_at inbox_path t =
     (if t < FTP_POLL_TIMEOUT then
        (case file_at t of
           Some _ \<Rightarrow>
             (case file_at (t + 1) of
                None \<Rightarrow> Inl (FileNotFoundError (inbox_path @ ''/startrun.dat''), t + 1)
              | Some content \<Rightarrow>
                  if length content > 0 then Inr (Some (inbox_path @ ''/startrun.dat''), t + 1)
                  else poll_for_file file_at inbox_path (t + 1 + FTP_POLL_INTERVAL))
         | None \<Rightarrow> poll_for_file file_at inbox_path (t + FTP_POLL_INTERVAL))
      else Inr (None, t))"
  by pat_completeness auto
termination
  by (relation "measure (\<lambda>(file_at, inbox_path, t). FTP_POLL_TIMEOUT - t)")
     (auto simp: FTP_POLL_TIMEOUT_def FTP_POLL_INTERVAL_def)

declare poll_for_file.simps [simp del]

text \<open>
  The \<open>try\<close> block of \<open>ZTEAdapter.backup\<close>. A failure carries the seconds elapsed
  since \<open>start_time\<close>, which the \<open>except\<close> clause stores as the execution time.
\<close>

definition zte_backup_try :: "attempt_env \<Rightarrow> device_info \<Rightarrow> adapter \<Rightarrow> (exn \<times> nat + pystr \<times> nat \<times> string \<times> string) \<times> adapter" where
  "zte_backup_try env info a =
     (let device_id = di_device_id info
      in case get_ftp_config env of
           Inl e \<Rightarrow> (Inl (e, 0), a)
         | Inr cfg \<Rightarrow>
             if \<not> ftp_enabled cfg then
               (Inl (RuntimeError
                  ''FTP server is not enabled. Enable it in Web UI (ZTE FTP Ingestion)'', 0), a)
             else if ftp_password cfg = [] then
               (Inl (RuntimeError ''FTP password not configured in .env file'', 0), a)
             else
               (case get_ftp_inbox_path env device_id of
                  Inl e \<Rightarrow> (Inl (e, 0), a)
                | Inr inbox_path \<Rightarrow>
                    (case connect env ZTEAdapter info a of
                       (Inl e, a1) \<Rightarrow> (Inl (e, session_seconds env), a1)
                     | (Inr _, a1) \<Rightarrow>
                         (case build_ftp_upload_command env device_id of
                            Inl e \<Rightarrow> (Inl (e, session_seconds env), a1)
                          | Inr upload_command \<Rightarrow>
                              (let a2 = a1\<lparr>sent := sent a1 @ [upload_command]\<rparr>
                               in case send_command env upload_command of
                                    Inl e \<Rightarrow> (Inl (e, session_seconds env), a2)
                                  | Inr _ \<Rightarrow>
                                      (let a3 = disconnect a2
                                       in case poll_for_file (inbox env) inbox_path 0 of
                                            Inl (e, t) \<Rightarrow> (Inl (e, session_seconds env + t), a3)
                                          | Inr (None, t) \<Rightarrow>
                                              (Inl (RuntimeError
                                                 (''FTP file not received within ''
                                                  @ str_nat FTP_POLL_TIMEOUT @ '' seconds''),
                                                 session_seconds env + t), a3)
                                          | Inr (Some received_file, t) \<Rightarrow>
                                              (case inbox env t of
                                                 None \<Rightarrow>
                                                   (Inl (FileNotFoundError received_file,
                                                         session_seconds env + t), a3)
                                               | Some content \<Rightarrow>
                                                   (Inr (decode_replace content,
                                                         session_seconds env + t,
                                                         sha256_hexdigest env content,
                                                         received_file), a3))))))))"

definition zte_backup :: "attempt_env \<Rightarrow> device_info \<Rightarrow> adapter \<Rightarrow> backup_result \<times> adapter" where
  "zte_backup env info a =
     (let result = init_backup_result env
      in case zte_backup_try env info a of
           (Inr (out, exec_time, checksum, received_file), a1) \<Rightarrow>
             (result\<lparr>br_success := True, br_output := Some out, br_execution_time := exec_time,
                     br_checksum := Some checksum, br_file_path := Some received_file\<rparr>,
              disconnect a1)
         | (Inl (e, t), a1) \<Rightarrow>
             (result\<lparr>br_error := Some (str_exn e), br_execution_time := t\<rparr>, disconnect a1))"

text \<open>\<open>adapter.backup()\<close>: the ZTE class overrides the method of the base class.\<close>

definition backup :: "attempt_env \<Rightarrow> adapter_class \<Rightarrow> device_info \<Rightarrow> adapter \<Rightarrow> backup_result \<times> adapter" where
  "backup env cls info a =
     (if cls = ZTEAdapter then zte_backup env info a else base_backup env cls info a)"


subsection \<open>A concrete device and environment for the examples\<close>

text \<open>
  \<open>example_digest\<close> (the bytes in hexadecimal) stands in for SHA-256 in the
  examples only; the theorems hold for every digest function.
\<close>

definition hex_digit :: "nat \<Rightarrow> char" where
  "hex_digit n = ''0123456789abcdef'' ! (n mod 16)"

definition example_digest :: "bytes \<Rightarrow> string" where
  "example_digest bs =
     concat (map (\<lambda>c. [hex_digit ((of_char c :: nat) div 16), hex_digit (of_char c :: nat)]) bs)"

definition example_datetime :: datetime where
  "example_datetime = \<lparr>year = 2024, month = 1, day = 2, hour = 3, minute = 4, second = 5, microsecond = 0\<rparr>"

definition example_env :: attempt_env where
  "example_env =
     \<lparr>environ = map_of [(''LEUITCSS_FTP_PASSWORD'', ''secret''), (''LEUITCSS_SERVER_IP'', ''10.0.0.1'')],
      ftp_service_active = True, autodetect_ip = Inr ''10.0.0.9'',
      decrypt_credential = (\<lambda>c. Inr c), ConnectHandler = (\<lambda>p. None), enable = None,
      send_command = (\<lambda>c. Inr (ascii ''hostname R1'')), session_seconds = 2,
      inbox_mkdir = None, inbox = (\<lambda>t. None), utcnow = example_datetime,
      sha256_hexdigest = example_digest,
      json_dump = (\<lambda>m. ''vendor='' @ md_vendor m)\<rparr>"

definition example_info :: "int \<Rightarrow> device_info" where
  "example_info i =
     \<lparr>di_device_id = i, di_ip_address = ''192.0.2.7'', di_port = None, di_username = ''u'',
      di_password = ''p'', di_enable_password = None, di_connection_type = ''ssh''\<rparr>"

definition upload_after_5 :: "nat \<Rightarrow> bytes option" where
  "upload_after_5 t = (if t < 5 then None else Some ''cfg'')"

section \<open>Properties of the adapters\<close>

subsection \<open>The relay poll loop\<close>

lemma poll_never: "(\<forall>t. file_at t = None) \<Longrightarrow> t0 \<le> FTP_POLL_TIMEOUT \<Longrightarrow> FTP_POLL_INTERVAL dvd (FTP_POLL_TIMEOUT - t0)
   \<Longrightarrow> poll_for_file file_at p t0 = Inr (None, FTP_POLL_TIMEOUT)"
proof (induction file_at p t0 rule: poll_for_file.induct)
  case (1 file_at p t)
  show ?case
  proof (cases "t < FTP_POLL_TIMEOUT")
    case True
    have d: "FTP_POLL_INTERVAL dvd (FTP_POLL_TIMEOUT - t)" using 1 by simp
    have pos: "0 < FTP_POLL_TIMEOUT - t" using True by simp
    have ge: "FTP_POLL_INTERVAL \<le> FTP_POLL_TIMEOUT - t" using d pos by (rule dvd_imp_le)
    have d': "FTP_POLL_INTERVAL dvd (FTP_POLL_TIMEOUT - (t + FTP_POLL_INTERVAL))"
      using d ge by (simp add: diff_diff_left [symmetric] del: diff_diff_left)
    have le': "t + FTP_POLL_INTERVAL \<le> FTP_POLL_TIMEOUT" using ge True by simp
    have none: "file_at t = None" using "1.prems"(1) by simp
    have "poll_for_file file_at p (t + FTP_POLL_INTERVAL) = Inr (None, FTP_POLL_TIMEOUT)"
      using "1.IH"(1) [OF True none "1.prems"(1) le' d'] .
    then show ?thesis using True none by (subst poll_for_file.simps) simp
  next
    case False
    then have "t = FTP_POLL_TIMEOUT" using "1.prems"(2) by simp
    then show ?thesis by (subst poll_for_file.simps) simp
  qed
qed

lemma poll_none_bounds: "poll_for_file file_at p t0 = Inr (None, t) \<Longrightarrow> t0 \<le> FTP_POLL_TIMEOUT + FTP_POLL_INTERVAL
   \<Longrightarrow> FTP_POLL_TIMEOUT \<le> t \<and> t \<le> FTP_POLL_TIMEOUT + FTP_POLL_INTERVAL"
proof (induction file_at p t0 rule: poll_for_file.induct)
  case (1 file_at p t0)
  show ?case
  proof (cases "t0 < FTP_POLL_TIMEOUT")
    case True
    show ?thesis
    proof (cases "file_at t0")
      case None
      then have "poll_for_file file_at p (t0 + FTP_POLL_INTERVAL) = Inr (None, t)"
        using True "1.prems"(1) by (subst (asm) poll_for_file.simps) simp
      then show ?thesis using "1.IH"(1) [OF True None] True by simp
    next
      case (Some c0)
      show ?thesis
      proof (cases "file_at (t0 + 1)")
        case None
        then show ?thesis using True Some "1.prems"(1) by (subst (asm) poll_for_file.simps) simp
      next
        case (Some c)
        have ne: "\<not> length c > 0" using True \<open>file_at t0 = Some c0\<close> Some "1.prems"(1)
          by (subst (asm) poll_for_file.simps) (auto split: if_splits)
        then have "poll_for_file file_at p (t0 + 1 + FTP_POLL_INTERVAL) = Inr (None, t)"
          using True \<open>file_at t0 = Some c0\<close> Some "1.prems"(1) by (subst (asm) poll_for_file.simps) simp
        then show ?thesis using "1.IH"(2) [OF True \<open>file_at t0 = Some c0\<close> Some ne] True by simp
      qed
    qed
  next
    case False
    then have "t = t0" using "1.prems"(1) by (subst (asm) poll_for_file.simps) simp
    then show ?thesis using False "1.prems"(2) by simp
  qed
qed

lemma poll_accept: "poll_for_file file_at p t0 = Inr (Some f, t) \<Longrightarrow>
   0 < t \<and> t \<le> FTP_POLL_TIMEOUT \<and> file_at (t - 1) \<noteq> None \<and> (\<exists>c. file_at t = Some c \<and> 0 < length c) \<and> f = p @ ''/startrun.dat''"
proof (induction file_at p t0 rule: poll_for_file.induct)
  case (1 file_at p t0)
  show ?case
  proof (cases "t0 < FTP_POLL_TIMEOUT")
    case True
    show ?thesis
    proof (cases "file_at t0")
      case None
      then have "poll_for_file file_at p (t0 + FTP_POLL_INTERVAL) = Inr (Some f, t)"
        using True "1.prems"(1) by (subst (asm) poll_for_file.simps) simp
      then show ?thesis using "1.IH"(1) [OF True None] by simp
    next
      case (Some c0)
      show ?thesis
      proof (cases "file_at (t0 + 1)")
        case None
        then show ?thesis using True Some "1.prems"(1) by (subst (asm) poll_for_file.simps) simp
      next
        case (Some c)
        show ?thesis
        proof (cases "length c > 0")
          case True': True
          then have "t = t0 + 1 \<and> f = p @ ''/startrun.dat''"
            using True \<open>file_at t0 = Some c0\<close> Some "1.prems"(1) by (subst (asm) poll_for_file.simps) simp
          then show ?thesis using True \<open>file_at t0 = Some c0\<close> Some True' by simp
        next
          case False
          then have "poll_for_file file_at p (t0 + 1 + FTP_POLL_INTERVAL) = Inr (Some f, t)"
            using True \<open>file_at t0 = Some c0\<close> Some "1.prems"(1) by (subst (asm) poll_for_file.simps) simp
          then show ?thesis using "1.IH"(2) [OF True \<open>file_at t0 = Some c0\<close> Some False] by simp
        qed
      qed
    qed
  next
    case False
    then show ?thesis using "1.prems"(1) by (subst (asm) poll_for_file.simps) simp
  qed
qed

lemma poll_clock_bound:
  "t0 \<le> FTP_POLL_TIMEOUT + FTP_POLL_INTERVAL \<Longrightarrow>
   (case poll_for_file file_at p t0 of Inl (e, t) \<Rightarrow> t | Inr (r, t) \<Rightarrow> t) \<le> FTP_POLL_TIMEOUT + FTP_POLL_INTERVAL"
proof (induction file_at p t0 rule: poll_for_file.induct)
  case (1 file_at p t0)
  show ?case
  proof (cases "t0 < FTP_POLL_TIMEOUT")
    case True
    show ?thesis
    proof (cases "file_at t0")
      case None
      then show ?thesis using "1.IH"(1) [OF True None] True
        by (subst poll_for_file.simps) simp
    next
      case (Some c0)
      show ?thesis
      proof (cases "file_at (t0 + 1)")
        case None
        then show ?thesis using True Some by (subst poll_for_file.simps) simp
      next
        case (Some c)
        show ?thesis
        proof (cases "length c > 0")
          case True': True
          then show ?thesis using True \<open>file_at t0 = Some c0\<close> Some
            by (subst poll_for_file.simps) simp
        next
          case False
          then show ?thesis
            using "1.IH"(2) [OF True \<open>file_at t0 = Some c0\<close> Some False] True \<open>file_at t0 = Some c0\<close> Some
            by (subst poll_for_file.simps) simp
        qed
      qed
    qed
  next
    case False
    then show ?thesis using "1.prems" by (subst poll_for_file.simps) simp
  qed
qed

lemma zte_never_received:
  assumes "\<forall>t. inbox env t = None"
  shows "\<not> br_success (fst (backup env ZTEAdapter info a))"
proof -
  have "poll_for_file (inbox env) p 0 = Inr (None, FTP_POLL_TIMEOUT)" for p
    using poll_never [OF assms, of 0 p] by (simp add: FTP_POLL_TIMEOUT_def FTP_POLL_INTERVAL_def)
  then have "\<exists>e t a1. zte_backup_try env info a = (Inl (e, t), a1)"
    by (auto simp: zte_backup_try_def Let_def split: sum.splits prod.splits option.splits)
  then show ?thesis
    by (auto simp: backup_def zte_backup_def init_backup_result_def Let_def)
qed


lemma connection_disconnect: "connection (disconnect a) = None"
  by (simp add: disconnect_def split: option.splits)

text \<open>
  \<open>relay_triggered\<close>: the attempt gets as far as the poll, that is, the FTP service
  is confirmed running and configured, the inbox exists, the session opens, and the
  trigger command is built and accepted by the device.
\<close>

definition relay_triggered :: "attempt_env \<Rightarrow> device_info \<Rightarrow> adapter \<Rightarrow> bool" where
  "relay_triggered env info a =
     (case get_ftp_config env of
        Inl _ \<Rightarrow> False
      | Inr cfg \<Rightarrow>
          ftp_enabled cfg \<and> ftp_password cfg \<noteq> [] \<and>
          (case get_ftp_inbox_path env (di_device_id info) of
             Inl _ \<Rightarrow> False
           | Inr _ \<Rightarrow>
               (case connect env ZTEAdapter info a of
                  (Inl _, _) \<Rightarrow> False
                | (Inr _, _) \<Rightarrow>
                    (case build_ftp_upload_command env (di_device_id info) of
                       Inl _ \<Rightarrow> False
                     | Inr upload_command \<Rightarrow>
                         (case send_command env upload_command of
                            Inl _ \<Rightarrow> False
                          | Inr _ \<Rightarrow> True)))))"

lemma str_nat_poll_timeout: "str_nat FTP_POLL_TIMEOUT = ''120''"
  by code_simp

lemma zte_timeout_reported:
  assumes never: "\<forall>t. inbox env t = None" and trig: "relay_triggered env info a"
  shows "br_error (fst (backup env ZTEAdapter info a))
           = Some ''FTP file not received within 120 seconds'' \<and>
         br_execution_time (fst (backup env ZTEAdapter info a))
           = session_seconds env + FTP_POLL_TIMEOUT"
proof -
  have p: "poll_for_file (inbox env) p 0 = Inr (None, FTP_POLL_TIMEOUT)" for p
    using poll_never [OF never, of 0 p] by (simp add: FTP_POLL_TIMEOUT_def FTP_POLL_INTERVAL_def)
  have "\<exists>a1. zte_backup_try env info a =
          (Inl (RuntimeError ''FTP file not received within 120 seconds'',
                session_seconds env + FTP_POLL_TIMEOUT), a1)"
    using trig
    by (auto simp: relay_triggered_def zte_backup_try_def Let_def p str_nat_poll_timeout
          split: sum.splits prod.splits)
  then show ?thesis
    by (auto simp: backup_def zte_backup_def init_backup_result_def Let_def)
qed


text \<open>
  C6. If no target file ever appears at the relay drop location, the poll loop ends with
  no file when the clock reads exactly the wait budget of 120 seconds; a poll that ends
  with no file always does so between 120 and 120 + 3 seconds; whatever the drop
  location shows, the loop returns with the clock at most at 123 seconds, so it never
  hangs; a file is accepted only when it existed at the check and, one second later,
  has a size above zero; an attempt whose file never appears is a failed attempt; and
  an attempt that reached the poll and whose file never appears reports the error
  \<open>FTP file not received within 120 seconds\<close>, with an execution time of the
  session's seconds plus exactly the 120 seconds of the budget, the session closed.
  The clock of the model advances by the \<open>sleep\<close> calls only.
\<close>

theorem relay_poll_timeout:
  "((\<forall>t. file_at t = None) \<longrightarrow> poll_for_file file_at p 0 = Inr (None, FTP_POLL_TIMEOUT)) \<and>
   (\<forall>t. poll_for_file file_at p 0 = Inr (None, t) \<longrightarrow>
        FTP_POLL_TIMEOUT \<le> t \<and> t \<le> FTP_POLL_TIMEOUT + FTP_POLL_INTERVAL) \<and>
   (case poll_for_file file_at p 0 of Inl (e, t) \<Rightarrow> t | Inr (r, t) \<Rightarrow> t)
      \<le> FTP_POLL_TIMEOUT + FTP_POLL_INTERVAL \<and>
   (\<forall>f t. poll_for_file file_at p 0 = Inr (Some f, t) \<longrightarrow>
        0 < t \<and> file_at (t - 1) \<noteq> None \<and> (\<exists>c. file_at t = Some c \<and> 0 < length c)) \<and>
   ((\<forall>t. inbox env t = None) \<longrightarrow> \<not> br_success (fst (backup env ZTEAdapter info a))) \<and>
   ((\<forall>t. inbox env t = None) \<and> relay_triggered env info a \<longrightarrow>
        br_error (fst (backup env ZTEAdapter info a))
          = Some ''FTP file not received within 120 seconds'' \<and>
        br_execution_time (fst (backup env ZTEAdapter info a))
          = session_seconds env + FTP_POLL_TIMEOUT \<and>
        connection (snd (backup env ZTEAdapter info a)) = None)"
proof (intro conjI allI impI)
  assume "\<forall>t. file_at t = None"
  then show "poll_for_file file_at p 0 = Inr (None, FTP_POLL_TIMEOUT)"
    using poll_never [of file_at 0 p] by (simp add: FTP_POLL_TIMEOUT_def FTP_POLL_INTERVAL_def)
next
  fix t assume "poll_for_file file_at p 0 = Inr (None, t)"
  then show "FTP_POLL_TIMEOUT \<le> t" and "t \<le> FTP_POLL_TIMEOUT + FTP_POLL_INTERVAL"
    using poll_none_bounds [of file_at p 0 t] by simp_all
next
  show "(case poll_for_file file_at p 0 of Inl (e, t) \<Rightarrow> t | Inr (r, t) \<Rightarrow> t)
      \<le> FTP_POLL_TIMEOUT + FTP_POLL_INTERVAL"
    using poll_clock_bound [of 0 file_at p] by simp
next
  fix f t assume "poll_for_file file_at p 0 = Inr (Some f, t)"
  then show "0 < t" and "file_at (t - 1) \<noteq> None" and "\<exists>c. file_at t = Some c \<and> 0 < length c"
    using poll_accept [of file_at p 0 f t] by simp_all
next
  assume "\<forall>t. inbox env t = None"
  then show "\<not> br_success (fst (backup env ZTEAdapter info a))"
    by (rule zte_never_received)
next
  assume h: "(\<forall>t. inbox env t = None) \<and> relay_triggered env info a"
  then show "br_error (fst (backup env ZTEAdapter info a))
          = Some ''FTP file not received within 120 seconds''"
    and "br_execution_time (fst (backup env ZTEAdapter info a))
          = session_seconds env + FTP_POLL_TIMEOUT"
    using zte_timeout_reported [of env info a] by simp_all
next
  show "connection (snd (backup env ZTEAdapter info a)) = None"
    by (simp add: backup_def zte_backup_def init_backup_result_def Let_def
        connection_disconnect split: prod.splits sum.splits)
qed

theorem relay_poll_timeout_witness:
  "(\<forall>t. inbox example_env t = None) \<and>
   relay_triggered example_env (example_info 1) new_adapter \<and>
   poll_for_file (inbox example_env) ''/in/zte/1'' 0 = Inr (None, 120) \<and>
   br_error (fst (backup example_env ZTEAdapter (example_info 1) new_adapter))
     = Some ''FTP file not received within 120 seconds'' \<and>
   br_execution_time (fst (backup example_env ZTEAdapter (example_info 1) new_adapter)) = 2 + 120 \<and>
   \<not> br_success (fst (backup example_env ZTEAdapter (example_info 1) new_adapter)) \<and>
   poll_for_file upload_after_5 ''/in/zte/1'' 0 = Inr (Some ''/in/zte/1/startrun.dat'', 7) \<and>
   upload_after_5 6 = Some ''cfg'' \<and> upload_after_5 7 = Some ''cfg''"
proof -
  note inst = relay_poll_timeout [of "inbox example_env" "''/in/zte/1''" example_env "example_info 1" new_adapter]
  have never: "\<forall>t. inbox example_env t = None"
    by (simp add: example_env_def)
  have trig: "relay_triggered example_env (example_info 1) new_adapter"
    by code_simp
  have p1: "poll_for_file (inbox example_env) ''/in/zte/1'' 0 = Inr (None, 120)"
    using inst never by (simp add: FTP_POLL_TIMEOUT_def)
  have nb: "\<not> br_success (fst (backup example_env ZTEAdapter (example_info 1) new_adapter))"
    using inst never by blast
  have s: "session_seconds example_env = 2" by (simp add: example_env_def)
  have e: "br_error (fst (backup example_env ZTEAdapter (example_info 1) new_adapter))
     = Some ''FTP file not received within 120 seconds''"
    using inst never trig by blast
  have x: "br_execution_time (fst (backup example_env ZTEAdapter (example_info 1) new_adapter)) = 2 + 120"
    using inst never trig s by (simp add: FTP_POLL_TIMEOUT_def)
  have a: "poll_for_file upload_after_5 ''/in/zte/1'' 0 = Inr (Some ''/in/zte/1/startrun.dat'', 7)"
    by code_simp
  have u6: "upload_after_5 6 = Some ''cfg''" by (simp add: upload_after_5_def)
  have u7: "upload_after_5 7 = Some ''cfg''" by (simp add: upload_after_5_def)
  show ?thesis by (intro conjI never trig p1 e x nb a u6 u7)
qed


subsection \<open>The command that reaches the device\<close>

lemma get_adapter_name: "get_adapter vendor = Inr cls \<Longrightarrow> vendor_name cls = lower vendor"
  by (auto simp: get_adapter_def VENDOR_ADAPTERS_def VENDOR_ADAPTERS_items_def
        split: option.splits if_splits)

lemma table_command:
  "cls \<noteq> ZTEAdapter \<Longrightarrow>
   map_option backup_command (VENDOR_COMMANDS (vendor_name cls)) = Some (adapter_backup_command cls)"
  by (cases cls) (simp_all add: VENDOR_COMMANDS_def VENDOR_COMMANDS_items_def)

lemma sent_connect: "sent (snd (connect env cls info a)) = sent a"
  by (auto simp: connect_def base_connect_def split: sum.splits option.splits prod.splits)

lemma sent_disconnect: "sent (disconnect a) = sent a"
  by (simp add: disconnect_def split: option.splits)

lemma sent_base_backup:
  "c \<in> set (sent (snd (base_backup env cls info new_adapter))) \<Longrightarrow> c = adapter_backup_command cls"
proof -
  assume c: "c \<in> set (sent (snd (base_backup env cls info new_adapter)))"
  obtain r a1 where co: "connect env cls info new_adapter = (r, a1)" by (cases "connect env cls info new_adapter")
  have s1: "sent a1 = []" using sent_connect [of env cls info new_adapter] co by (simp add: new_adapter_def)
  show ?thesis using c co s1
    by (auto simp: base_backup_def base_backup_try_def execute_backup_def Let_def sent_disconnect
          split: sum.splits option.splits prod.splits)
qed

lemma sent_zte_backup:
  "c \<in> set (sent (snd (zte_backup env info new_adapter))) \<Longrightarrow>
   build_ftp_upload_command env (di_device_id info) = Inr c"
proof -
  assume c: "c \<in> set (sent (snd (zte_backup env info new_adapter)))"
  obtain r a1 where co: "connect env ZTEAdapter info new_adapter = (r, a1)"
    by (cases "connect env ZTEAdapter info new_adapter")
  have s1: "sent a1 = []" using sent_connect [of env ZTEAdapter info new_adapter] co by (simp add: new_adapter_def)
  have s0: "sent new_adapter = []" by (simp add: new_adapter_def)
  show ?thesis using c co s1 s0
    by (auto simp: zte_backup_def zte_backup_try_def Let_def sent_disconnect
          split: sum.splits option.splits prod.splits if_splits)
qed


text \<open>
  C1, as amended. For every vendor tag that has an adapter, and every capture attempt
  started on a fresh adapter: if the vendor is not zte, every command string sent to the
  device equals the compiled table's command of that vendor, so the commands of any two
  attempts (any devices, environments, credentials) are identical; if the vendor is zte,
  every command sent is the relay trigger that \<open>_build_ftp_upload_command\<close> builds
  from the server address, the device id and the FTP user and password of that attempt.
  The counterexample shows the claim as stated failing for zte: the command sent is not
  the table's \<open>show running-config\<close>, and it differs between two devices.
\<close>

theorem issued_command:
  assumes "get_adapter vendor = Inr cls"
  shows "(lower vendor \<noteq> ''zte'' \<longrightarrow>
            (\<forall>c1 \<in> set (sent (snd (backup env1 cls info1 new_adapter))).
             \<forall>c2 \<in> set (sent (snd (backup env2 cls info2 new_adapter))).
               c1 = c2 \<and> map_option backup_command (VENDOR_COMMANDS (lower vendor)) = Some c1)) \<and>
         (lower vendor = ''zte'' \<longrightarrow>
            (\<forall>c \<in> set (sent (snd (backup env1 cls info1 new_adapter))).
               build_ftp_upload_command env1 (di_device_id info1) = Inr c))"
proof (intro conjI impI ballI)
  fix c1 c2
  assume nz: "lower vendor \<noteq> ''zte''"
    and c1: "c1 \<in> set (sent (snd (backup env1 cls info1 new_adapter)))"
    and c2: "c2 \<in> set (sent (snd (backup env2 cls info2 new_adapter)))"
  have n: "vendor_name cls = lower vendor" using assms by (rule get_adapter_name)
  then have cz: "cls \<noteq> ZTEAdapter" using nz by auto
  have "c1 = adapter_backup_command cls" using c1 cz sent_base_backup by (simp add: backup_def)
  moreover have "c2 = adapter_backup_command cls" using c2 cz sent_base_backup by (simp add: backup_def)
  ultimately show "c1 = c2" and "map_option backup_command (VENDOR_COMMANDS (lower vendor)) = Some c1"
    using table_command [OF cz] n by simp_all
next
  fix c
  assume z: "lower vendor = ''zte''"
    and c: "c \<in> set (sent (snd (backup env1 cls info1 new_adapter)))"
  have n: "vendor_name cls = lower vendor" using assms by (rule get_adapter_name)
  then have "cls = ZTEAdapter" using z by (cases cls) simp_all
  then show "build_ftp_upload_command env1 (di_device_id info1) = Inr c"
    using c sent_zte_backup by (simp add: backup_def)
qed

theorem issued_command_counterexample:
  "get_adapter ''zte'' = Inr ZTEAdapter \<and>
   map_option backup_command (VENDOR_COMMANDS ''zte'') = Some ''show running-config'' \<and>
   sent (snd (backup example_env ZTEAdapter (example_info 1) new_adapter))
     = [''file upload cfg-startup startrun.dat ftp ipaddress 10.0.0.1 path zte/1/ user leuitcss password secret''] \<and>
   sent (snd (backup example_env ZTEAdapter (example_info 2) new_adapter))
     = [''file upload cfg-startup startrun.dat ftp ipaddress 10.0.0.1 path zte/2/ user leuitcss password secret''] \<and>
   sent (snd (backup example_env ZTEAdapter (example_info 1) new_adapter)) \<noteq> [''show running-config''] \<and>
   sent (snd (backup example_env ZTEAdapter (example_info 1) new_adapter))
     \<noteq> sent (snd (backup example_env ZTEAdapter (example_info 2) new_adapter))"
  by code_simp

theorem issued_command_witness:
  "get_adapter ''Cisco'' = Inr CiscoAdapter \<and> lower ''Cisco'' \<noteq> ''zte'' \<and>
   sent (snd (backup example_env CiscoAdapter (example_info 1) new_adapter)) = [''show running-config''] \<and>
   sent (snd (backup (example_env\<lparr>send_command := (\<lambda>c. Inl (OtherException ''read timeout''))\<rparr>)
                CiscoAdapter (example_info 2) new_adapter)) = [''show running-config''] \<and>
   map_option backup_command (VENDOR_COMMANDS (lower ''Cisco'')) = Some ''show running-config'' \<and>
   get_adapter ''zte'' = Inr ZTEAdapter \<and> lower ''zte'' = ''zte'' \<and>
   sent (snd (backup example_env ZTEAdapter (example_info 1) new_adapter))
     = [''file upload cfg-startup startrun.dat ftp ipaddress 10.0.0.1 path zte/1/ user leuitcss password secret''] \<and>
   build_ftp_upload_command example_env (di_device_id (example_info 1))
     = Inr ''file upload cfg-startup startrun.dat ftp ipaddress 10.0.0.1 path zte/1/ user leuitcss password secret''"
proof -
  let ?env2 = "example_env\<lparr>send_command := (\<lambda>c. Inl (OtherException ''read timeout''))\<rparr>"
  let ?S1 = "sent (snd (backup example_env CiscoAdapter (example_info 1) new_adapter))"
  let ?S2 = "sent (snd (backup ?env2 CiscoAdapter (example_info 2) new_adapter))"
  let ?SZ = "sent (snd (backup example_env ZTEAdapter (example_info 1) new_adapter))"
  let ?cmd = "''file upload cfg-startup startrun.dat ftp ipaddress 10.0.0.1 path zte/1/ user leuitcss password secret''"
  have g: "get_adapter ''Cisco'' = Inr CiscoAdapter" by code_simp
  have l: "lower ''Cisco'' \<noteq> ''zte''" by code_simp
  have s1: "?S1 = [''show running-config'']" by code_simp
  have s2: "?S2 = [''show running-config'']" by code_simp
  have m1: "''show running-config'' \<in> set ?S1" unfolding s1 by simp
  have m2: "''show running-config'' \<in> set ?S2" unfolding s2 by simp
  have "lower ''Cisco'' \<noteq> ''zte'' \<longrightarrow>
          (\<forall>c1 \<in> set ?S1. \<forall>c2 \<in> set ?S2.
             c1 = c2 \<and> map_option backup_command (VENDOR_COMMANDS (lower ''Cisco'')) = Some c1)"
    using issued_command [OF g, of example_env "example_info 1" ?env2 "example_info 2"]
    by (rule conjunct1)
  then have "\<forall>c1 \<in> set ?S1. \<forall>c2 \<in> set ?S2.
             c1 = c2 \<and> map_option backup_command (VENDOR_COMMANDS (lower ''Cisco'')) = Some c1"
    using l by (rule mp)
  then have t: "map_option backup_command (VENDOR_COMMANDS (lower ''Cisco'')) = Some ''show running-config''"
    using m1 m2 by (auto dest!: bspec)
  have gz: "get_adapter ''zte'' = Inr ZTEAdapter" by code_simp
  have lz: "lower ''zte'' = ''zte''" by code_simp
  have sz: "?SZ = [?cmd]" by code_simp
  have mz: "?cmd \<in> set ?SZ" unfolding sz by simp
  have "lower ''zte'' = ''zte'' \<longrightarrow>
          (\<forall>c \<in> set ?SZ. build_ftp_upload_command example_env (di_device_id (example_info 1)) = Inr c)"
    using issued_command [OF gz, of example_env "example_info 1" example_env "example_info 1"]
    by (rule conjunct2)
  then have "\<forall>c \<in> set ?SZ. build_ftp_upload_command example_env (di_device_id (example_info 1)) = Inr c"
    using lz by (rule mp)
  then have b: "build_ftp_upload_command example_env (di_device_id (example_info 1)) = Inr ?cmd"
    using mz by (rule bspec)
  show ?thesis by (intro conjI g l s1 s2 t gz lz sz b)
qed



subsection \<open>The session is released on every exit of backup()\<close>



text \<open>
  C7. Every execution of an adapter's \<open>backup()\<close>, for every adapter class and
  whatever the device, the environment and the decryption do (connect failure, command
  failure, relay precondition failure, relay timeout, success), ends with the adapter's
  \<open>connection\<close> attribute set to None, and returns a result dict: its \<open>success\<close>
  flag is true exactly when no error string was recorded. No exception escapes: every
  \<open>raise\<close> inside the method is turned into the \<open>error\<close> field.
\<close>

theorem backup_closes_session:
  "connection (snd (backup env cls info a)) = None \<and>
   br_success (fst (backup env cls info a)) = (br_error (fst (backup env cls info a)) = None)"
  by (simp add: backup_def zte_backup_def base_backup_def init_backup_result_def Let_def
        connection_disconnect split: prod.splits sum.splits)



section \<open>app/storage.py: the immutable artifact store\<close>

subsection \<open>Paths and the filesystem\<close>

text \<open>
  A path is the list of its components below the root. \<open>path_join\<close> is the \<open>/\<close>
  of pathlib on POSIX: the right operand is split at slashes, empty and \<open>.\<close> parts are
  dropped, and an absolute right operand replaces the left one. The filesystem maps a
  path to a directory or to a file with its bytes and permission bits. The operations
  raise what the operating system raises for the shape of the tree (a missing or
  non-directory ancestor, an existing target, a directory opened as a file, a file
  without write permission); failures of the medium are outside the model.
\<close>

type_synonym path = "string list"

datatype node = Dir | File bytes nat

type_synonym filesystem = "path \<Rightarrow> node option"

fun split_slash :: "string \<Rightarrow> string \<Rightarrow> string list" where
  "split_slash acc [] = [rev acc]"
| "split_slash acc (c # cs) =
     (if c = CHR ''/'' then rev acc # split_slash [] cs else split_slash (c # acc) cs)"

definition path_parts :: "string \<Rightarrow> path" where
  "path_parts s = filter (\<lambda>part. part \<noteq> [] \<and> part \<noteq> ''.'') (split_slash [] s)"

definition is_absolute :: "string \<Rightarrow> bool" where
  "is_absolute s = (case s of [] \<Rightarrow> False | c # _ \<Rightarrow> c = CHR ''/'')"

definition path_join :: "path \<Rightarrow> string \<Rightarrow> path" where
  "path_join p s = (if is_absolute s then path_parts s else p @ path_parts s)"

fun path_str :: "path \<Rightarrow> string" where
  "path_str [] = ''.''"
| "path_str [c] = c"
| "path_str (c # cs) = c @ ''/'' @ path_str cs"

text \<open>The first failure among the ancestors of a path, walking down from the root.\<close>

fun ancestors_error :: "filesystem \<Rightarrow> path \<Rightarrow> path \<Rightarrow> exn option" where
  "ancestors_error fs pre [] = None"
| "ancestors_error fs pre (c # cs) =
     (case fs (pre @ [c]) of
        None \<Rightarrow> Some (FileNotFoundError (path_str (pre @ [c])))
      | Some (File _ _) \<Rightarrow> Some (NotADirectoryError (path_str (pre @ [c])))
      | Some Dir \<Rightarrow> ancestors_error fs (pre @ [c]) cs)"

definition parent_error :: "filesystem \<Rightarrow> path \<Rightarrow> exn option" where
  "parent_error fs p = ancestors_error fs [] (butlast p)"

definition path_exists :: "filesystem \<Rightarrow> path \<Rightarrow> bool" where
  "path_exists fs p = (p = [] \<or> (parent_error fs p = None \<and> fs p \<noteq> None))"

definition is_dir :: "filesystem \<Rightarrow> path \<Rightarrow> bool" where
  "is_dir fs p = (p = [] \<or> (parent_error fs p = None \<and> fs p = Some Dir))"

definition os_mkdir :: "filesystem \<Rightarrow> path \<Rightarrow> exn + filesystem" where
  "os_mkdir fs p =
     (if p = [] then Inl (FileExistsError (path_str p))
      else case parent_error fs p of
             Some e \<Rightarrow> Inl e
           | None \<Rightarrow>
               (case fs p of
                  Some _ \<Rightarrow> Inl (FileExistsError (path_str p))
                | None \<Rightarrow> Inr (fs(p \<mapsto> Dir))))"

text \<open>\<open>Path.mkdir(parents, exist_ok)\<close> of pathlib.\<close>

function path_mkdir :: "filesystem \<Rightarrow> path \<Rightarrow> bool \<Rightarrow> bool \<Rightarrow> exn + filesystem" where
  "path_mkdir fs p parents exist_ok =
     (case os_mkdir fs p of
        Inr fs1 \<Rightarrow> Inr fs1
      | Inl e \<Rightarrow>
          (case e of
             FileNotFoundError m \<Rightarrow>
               if \<not> parents \<or> p = [] then Inl e
               else (case path_mkdir fs (butlast p) True True of
                       Inl e1 \<Rightarrow> Inl e1
                     | Inr fs1 \<Rightarrow> path_mkdir fs1 p False exist_ok)
           | _ \<Rightarrow> if \<not> exist_ok \<or> \<not> is_dir fs p then Inl e else Inr fs))"
  by pat_completeness auto
termination
  by (relation "measure (\<lambda>(fs, p, parents, exist_ok). 2 * length p + (if parents then 1 else 0))")
     auto

declare path_mkdir.simps [simp del]

definition writable :: "nat \<Rightarrow> bool" where
  "writable mode = ((mode div 128) mod 2 = 1)"

text \<open>\<open>open(path, 'w')\<close> followed by one \<open>write\<close> of the given bytes and the close.\<close>

definition write_file :: "filesystem \<Rightarrow> path \<Rightarrow> bytes \<Rightarrow> exn + filesystem" where
  "write_file fs p data =
     (if p = [] then Inl (IsADirectoryError (path_str p))
      else case parent_error fs p of
             Some e \<Rightarrow> Inl e
           | None \<Rightarrow>
               (case fs p of
                  Some Dir \<Rightarrow> Inl (IsADirectoryError (path_str p))
                | Some (File _ mode) \<Rightarrow>
                    if writable mode then Inr (fs(p \<mapsto> File data mode))
                    else Inl (PermissionError (path_str p))
                | None \<Rightarrow> Inr (fs(p \<mapsto> File data 420))))"

definition read_file :: "filesystem \<Rightarrow> path \<Rightarrow> exn + bytes" where
  "read_file fs p =
     (if p = [] then Inl (IsADirectoryError (path_str p))
      else case parent_error fs p of
             Some e \<Rightarrow> Inl e
           | None \<Rightarrow>
               (case fs p of
                  Some Dir \<Rightarrow> Inl (IsADirectoryError (path_str p))
                | Some (File data _) \<Rightarrow> Inr data
                | None \<Rightarrow> Inl (FileNotFoundError (path_str p))))"

definition os_chmod :: "filesystem \<Rightarrow> path \<Rightarrow> nat \<Rightarrow> exn + filesystem" where
  "os_chmod fs p mode =
     (if p = [] then Inr fs
      else case parent_error fs p of
             Some e \<Rightarrow> Inl e
           | None \<Rightarrow>
               (case fs p of
                  Some Dir \<Rightarrow> Inr fs
                | Some (File data _) \<Rightarrow> Inr (fs(p \<mapsto> File data mode))
                | None \<Rightarrow> Inl (FileNotFoundError (path_str p))))"

text \<open>
  Reading in text mode applies universal newlines: \<open>\r\n\<close> and a lone \<open>\r\<close> both
  become \<open>\n\<close>. Writing in text mode on POSIX leaves the text as it is.
\<close>

fun universal_newlines :: "pystr \<Rightarrow> pystr" where
  "universal_newlines [] = []"
| "universal_newlines [c] = (if c = 13 then [10] else [c])"
| "universal_newlines (c # d # cs) =
     (if c = 13 then (if d = 10 then 10 # universal_newlines cs else 10 # universal_newlines (d # cs))
      else c # universal_newlines (d # cs))"

definition read_text :: "filesystem \<Rightarrow> path \<Rightarrow> exn + pystr" where
  "read_text fs p =
     (case read_file fs p of
        Inl e \<Rightarrow> Inl e
      | Inr data \<Rightarrow>
          (case decode_strict data of
             Inl e \<Rightarrow> Inl e
           | Inr text \<Rightarrow> Inr (universal_newlines text)))"


subsection \<open>StorageManager\<close>

record storage_manager =
  base_path :: path

definition pad2 :: "nat \<Rightarrow> string" where
  "pad2 n = (if n < 10 then CHR ''0'' # str_nat n else str_nat n)"

text \<open>\<open>timestamp.strftime('%Y%m%d_%H%M%S')\<close>: the microseconds do not appear.\<close>

definition strftime_dir :: "datetime \<Rightarrow> string" where
  "strftime_dir ts =
     str_nat (year ts) @ pad2 (month ts) @ pad2 (day ts) @ ''_''
     @ pad2 (hour ts) @ pad2 (minute ts) @ pad2 (second ts)"

definition get_backup_path :: "storage_manager \<Rightarrow> string \<Rightarrow> int \<Rightarrow> datetime \<Rightarrow> path" where
  "get_backup_path sm vendor device_id timestamp =
     path_join (path_join (path_join (base_path sm) vendor) (str_int device_id))
       (strftime_dir timestamp)"

record save_args =
  sa_vendor :: string
  sa_device_id :: int
  sa_device_name :: string
  sa_device_ip :: string
  sa_connection_type :: string
  sa_backup_command :: string
  sa_config_output :: pystr
  sa_output_extension :: string
  sa_execution_time :: nat
  sa_timestamp :: "datetime option"

definition create_metadata :: "save_args \<Rightarrow> datetime \<Rightarrow> string \<Rightarrow> string \<Rightarrow> string \<Rightarrow> metadata" where
  "create_metadata a timestamp status checksum file_name =
     \<lparr>md_vendor = sa_vendor a, md_device_id = sa_device_id a, md_device_ip = sa_device_ip a,
      md_connection_type = sa_connection_type a, md_backup_command = sa_backup_command a,
      md_timestamp = timestamp, md_execution_time_seconds = sa_execution_time a,
      md_status = status, md_checksum_sha256 = checksum, md_file_name = file_name,
      md_leuitcss_version = ''1.0.0''\<rparr>"

text \<open>UTF-8 of a string of code points below 256 (it cannot fail).\<close>

definition utf8_of_string :: "string \<Rightarrow> bytes" where
  "utf8_of_string s =
     concat (map (\<lambda>c. let n = (of_char c :: nat)
                       in if n < 128 then [c]
                          else [char_of (0xC0 + n div 64), char_of (0x80 + n mod 64)]) s)"

definition relative_to :: "path \<Rightarrow> path \<Rightarrow> exn + path" where
  "relative_to p base =
     (if take (length base) p = base then Inr (drop (length base) p)
      else Inl (ValueError (path_str p @ '' is not in the subpath of '' @ path_str base)))"

record save_result =
  sr_success :: bool
  sr_file_path :: "string option"
  sr_metadata_path :: "string option"
  sr_checksum_path :: "string option"
  sr_checksum :: "string option"
  sr_error :: "string option"
  sr_file_size :: "nat option"

definition init_save_result :: save_result where
  "init_save_result =
     \<lparr>sr_success = False, sr_file_path = None, sr_metadata_path = None, sr_checksum_path = None,
      sr_checksum = None, sr_error = None, sr_file_size = None\<rparr>"

text \<open>
  The \<open>try\<close> block of \<open>save_backup\<close>: the values for the result, or the exception,
  and in both cases the filesystem as the block leaves it.
\<close>

definition save_backup_try :: "attempt_env \<Rightarrow> storage_manager \<Rightarrow> save_args \<Rightarrow> filesystem \<Rightarrow> (exn + string \<times> string \<times> string \<times> string \<times> nat) \<times> filesystem" where
  "save_backup_try env sm a fs =
     (let timestamp = (case sa_timestamp a of None \<Rightarrow> utcnow env | Some t \<Rightarrow> t);
          backup_dir = get_backup_path sm (sa_vendor a) (sa_device_id a) timestamp
      in case path_mkdir fs backup_dir True False of
           Inl e \<Rightarrow> (Inl e, fs)
         | Inr fs1 \<Rightarrow>
            (case utf8_encode (sa_config_output a) of
               Inl e \<Rightarrow> (Inl e, fs1)
             | Inr encoded \<Rightarrow>
                (let checksum = sha256_hexdigest env encoded;
                     config_filename = ''config'' @ sa_output_extension a;
                     metadata_filename = ''metadata.json'';
                     checksum_filename = ''checksum.sha256'';
                     config_path = path_join backup_dir config_filename
                 in case write_file fs1 config_path encoded of
                      Inl e \<Rightarrow> (Inl e, fs1)
                    | Inr fs2 \<Rightarrow>
                       (let metadata = create_metadata a timestamp ''success'' checksum config_filename;
                            metadata_path = path_join backup_dir metadata_filename
                        in case write_file fs2 metadata_path (json_dump env metadata) of
                             Inl e \<Rightarrow> (Inl e, fs2)
                           | Inr fs3 \<Rightarrow>
                              (let checksum_path = path_join backup_dir checksum_filename
                               in case write_file fs3 checksum_path
                                         (utf8_of_string (checksum @ ''  '' @ config_filename @ [CHR 0x0A])) of
                                    Inl e \<Rightarrow> (Inl e, fs3)
                                  | Inr fs4 \<Rightarrow>
                                     (case os_chmod fs4 config_path 292 of
                                        Inl e \<Rightarrow> (Inl e, fs4)
                                      | Inr fs5 \<Rightarrow>
                                         (case os_chmod fs5 metadata_path 292 of
                                            Inl e \<Rightarrow> (Inl e, fs5)
                                          | Inr fs6 \<Rightarrow>
                                             (case os_chmod fs6 checksum_path 292 of
                                                Inl e \<Rightarrow> (Inl e, fs6)
                                              | Inr fs7 \<Rightarrow>
                                                 (case relative_to backup_dir (base_path sm) of
                                                    Inl e \<Rightarrow> (Inl e, fs7)
                                                  | Inr relative_dir \<Rightarrow>
                                                     (Inr (path_str (path_join relative_dir config_filename),
                                                           path_str (path_join relative_dir metadata_filename),
                                                           path_str (path_join relative_dir checksum_filename),
                                                           checksum, length encoded), fs7))))))))))"

definition save_backup :: "attempt_env \<Rightarrow> storage_manager \<Rightarrow> save_args \<Rightarrow> filesystem \<Rightarrow> save_result \<times> filesystem" where
  "save_backup env sm a fs =
     (case save_backup_try env sm a fs of
        (Inr (file_path, metadata_path, checksum_path, checksum, file_size), fs1) \<Rightarrow>
          (init_save_result\<lparr>sr_success := True, sr_file_path := Some file_path,
                            sr_metadata_path := Some metadata_path,
                            sr_checksum_path := Some checksum_path,
                            sr_checksum := Some checksum, sr_file_size := Some file_size\<rparr>, fs1)
      | (Inl e, fs1) \<Rightarrow>
          (case e of
             FileExistsError _ \<Rightarrow>
               (init_save_result\<lparr>sr_error :=
                  Some ''Backup directory already exists (immutability violation)''\<rparr>, fs1)
           | _ \<Rightarrow> (init_save_result\<lparr>sr_error := Some (str_exn e)\<rparr>, fs1)))"

text \<open>\<open>get_backup\<close> has no handler: a decoding error is raised to the caller.\<close>

definition get_backup :: "storage_manager \<Rightarrow> string \<Rightarrow> filesystem \<Rightarrow> exn + pystr option" where
  "get_backup sm file_path fs =
     (let full_path = path_join (base_path sm) file_path
      in if \<not> path_exists fs full_path then Inr None
         else (case read_text fs full_path of Inl e \<Rightarrow> Inl e | Inr text \<Rightarrow> Inr (Some text)))"

text \<open>\<open>str.split()\<close>: the maximal runs of characters that are not whitespace.\<close>

definition is_space_cp :: "nat \<Rightarrow> bool" where
  "is_space_cp c =
     (c \<in> {9, 10, 11, 12, 13, 28, 29, 30, 31, 32, 133, 160, 0x1680, 0x2028, 0x2029, 0x202F,
            0x205F, 0x3000} \<or> (0x2000 \<le> c \<and> c \<le> 0x200A))"

fun split_ws :: "pystr \<Rightarrow> pystr \<Rightarrow> pystr list" where
  "split_ws acc [] = (if acc = [] then [] else [rev acc])"
| "split_ws acc (c # cs) =
     (if is_space_cp c then (if acc = [] then split_ws [] cs else rev acc # split_ws [] cs)
      else split_ws (c # acc) cs)"

definition verify_checksum :: "attempt_env \<Rightarrow> storage_manager \<Rightarrow> string \<Rightarrow> filesystem \<Rightarrow> exn + bool" where
  "verify_checksum env sm file_path fs =
     (let full_path = path_join (base_path sm) file_path;
          checksum_path = path_join (butlast full_path) ''checksum.sha256''
      in if \<not> path_exists fs full_path \<or> \<not> path_exists fs checksum_path then Inr False
         else (case read_text fs checksum_path of
                 Inl e \<Rightarrow> Inl e
               | Inr text \<Rightarrow>
                   (case split_ws [] text of
                      [] \<Rightarrow> Inl (IndexError ''list index out of range'')
                    | stored_checksum # _ \<Rightarrow>
                        (case read_file fs full_path of
                           Inl e \<Rightarrow> Inl e
                         | Inr data \<Rightarrow>
                             Inr (stored_checksum = ascii (sha256_hexdigest env data))))))"

definition example_store :: storage_manager where
  "example_store = \<lparr>base_path = [''srv'', ''storage'']\<rparr>"

definition example_fs :: filesystem where
  "example_fs = Map.empty([''srv''] \<mapsto> Dir, [''srv'', ''storage''] \<mapsto> Dir)"

definition example_save_args :: "pystr \<Rightarrow> save_args" where
  "example_save_args content =
     \<lparr>sa_vendor = ''cisco'', sa_device_id = 7, sa_device_name = ''R1'', sa_device_ip = ''192.0.2.7'',
      sa_connection_type = ''ssh'', sa_backup_command = ''show running-config'',
      sa_config_output = content, sa_output_extension = ''.txt'', sa_execution_time = 2,
      sa_timestamp = None\<rparr>"


section \<open>Properties of the artifact store\<close>

subsection \<open>Directories survive the writes of a save\<close>

lemma ancestors_none_iff:
  "ancestors_error fs pre cs = None \<longleftrightarrow>
   (\<forall>k. 0 < k \<and> k \<le> length cs \<longrightarrow> fs (pre @ take k cs) = Some Dir)"
proof (induction cs arbitrary: pre)
  case Nil
  then show ?case by simp
next
  case (Cons c cs)
  have split: "(\<forall>k. 0 < k \<and> k \<le> Suc (length cs) \<longrightarrow> fs (pre @ take k (c # cs)) = Some Dir) \<longleftrightarrow>
        fs (pre @ [c]) = Some Dir \<and>
        (\<forall>k. 0 < k \<and> k \<le> length cs \<longrightarrow> fs ((pre @ [c]) @ take k cs) = Some Dir)"
    (is "?L \<longleftrightarrow> ?A \<and> ?B")
  proof
    assume L: ?L
    have ?A using L [rule_format, of 1] by simp
    moreover have ?B
    proof (intro allI impI)
      fix k assume "0 < k \<and> k \<le> length cs"
      then show "fs ((pre @ [c]) @ take k cs) = Some Dir"
        using L [rule_format, of "Suc k"] by simp
    qed
    ultimately show "?A \<and> ?B" ..
  next
    assume AB: "?A \<and> ?B"
    show ?L
    proof (intro allI impI)
      fix k assume k: "0 < k \<and> k \<le> Suc (length cs)"
      then obtain j where j: "k = Suc j" by (cases k) auto
      show "fs (pre @ take k (c # cs)) = Some Dir"
      proof (cases j)
        case 0
        then show ?thesis using AB j by simp
      next
        case (Suc i)
        then show ?thesis using AB [THEN conjunct2, rule_format, of j] j k by simp
      qed
    qed
  qed
  show ?case
    using Cons.IH [of "pre @ [c]"] split
    by (auto split: option.splits node.splits)
qed

lemma is_dir_iff:
  "is_dir fs p \<longleftrightarrow> (\<forall>k. 0 < k \<and> k \<le> length p \<longrightarrow> fs (take k p) = Some Dir)"
proof (cases p rule: rev_cases)
  case Nil
  then show ?thesis by (simp add: is_dir_def)
next
  case (snoc q c)
  have "is_dir fs p \<longleftrightarrow>
        (\<forall>k. 0 < k \<and> k \<le> length q \<longrightarrow> fs (take k q) = Some Dir) \<and> fs (q @ [c]) = Some Dir"
    using snoc ancestors_none_iff [of fs "[]" q] by (simp add: is_dir_def parent_error_def)
  also have "\<dots> \<longleftrightarrow> (\<forall>k. 0 < k \<and> k \<le> length p \<longrightarrow> fs (take k p) = Some Dir)"
  proof
    assume a: "(\<forall>k. 0 < k \<and> k \<le> length q \<longrightarrow> fs (take k q) = Some Dir) \<and> fs (q @ [c]) = Some Dir"
    show "\<forall>k. 0 < k \<and> k \<le> length p \<longrightarrow> fs (take k p) = Some Dir"
    proof (intro allI impI)
      fix k assume k: "0 < k \<and> k \<le> length p"
      show "fs (take k p) = Some Dir"
      proof (cases "k \<le> length q")
        case True
        then show ?thesis using a k snoc by simp
      next
        case False
        then have "k = length p" using k snoc by simp
        then show ?thesis using a snoc by simp
      qed
    qed
  next
    assume b: "\<forall>k. 0 < k \<and> k \<le> length p \<longrightarrow> fs (take k p) = Some Dir"
    have "fs (q @ [c]) = Some Dir" using b [rule_format, of "length p"] snoc by simp
    moreover have "\<forall>k. 0 < k \<and> k \<le> length q \<longrightarrow> fs (take k q) = Some Dir"
    proof (intro allI impI)
      fix k assume "0 < k \<and> k \<le> length q"
      then show "fs (take k q) = Some Dir" using b [rule_format, of k] snoc by simp
    qed
    ultimately show "(\<forall>k. 0 < k \<and> k \<le> length q \<longrightarrow> fs (take k q) = Some Dir) \<and> fs (q @ [c]) = Some Dir"
      by simp
  qed
  finally show ?thesis .
qed

lemma is_dir_upd_file:
  assumes "is_dir fs d" and "fs q \<noteq> Some Dir"
  shows "is_dir (fs(q \<mapsto> n)) d"
proof -
  have "\<forall>k. 0 < k \<and> k \<le> length d \<longrightarrow> (fs(q \<mapsto> n)) (take k d) = Some Dir"
  proof (intro allI impI)
    fix k assume k: "0 < k \<and> k \<le> length d"
    then have "fs (take k d) = Some Dir" using assms(1) by (simp add: is_dir_iff)
    then show "(fs(q \<mapsto> n)) (take k d) = Some Dir" using assms(2) by auto
  qed
  then show ?thesis by (simp add: is_dir_iff)
qed

lemma is_dir_write_file:
  "write_file fs q data = Inr fs1 \<Longrightarrow> is_dir fs d \<Longrightarrow> is_dir fs1 d"
  by (auto simp: write_file_def is_dir_upd_file split: if_splits option.splits node.splits)

lemma is_dir_os_chmod:
  "os_chmod fs q mode = Inr fs1 \<Longrightarrow> is_dir fs d \<Longrightarrow> is_dir fs1 d"
  by (auto simp: os_chmod_def is_dir_upd_file split: if_splits option.splits node.splits)

lemma is_dir_os_mkdir: "os_mkdir fs p = Inr fs1 \<Longrightarrow> is_dir fs1 p"
proof -
  assume a: "os_mkdir fs p = Inr fs1"
  then have ne: "p \<noteq> []" and pe: "parent_error fs p = None" and fp: "fs p = None"
    and f1: "fs1 = fs(p \<mapsto> Dir)"
    by (auto simp: os_mkdir_def split: if_splits option.splits)
  have "\<forall>k. 0 < k \<and> k \<le> length (butlast p) \<longrightarrow> fs (take k (butlast p)) = Some Dir"
    using pe ancestors_none_iff [of fs "[]" "butlast p"] by (simp add: parent_error_def)
  then have anc: "\<forall>k. 0 < k \<and> k < length p \<longrightarrow> fs (take k p) = Some Dir"
    by (auto simp: take_butlast)
  have "\<forall>k. 0 < k \<and> k \<le> length p \<longrightarrow> fs1 (take k p) = Some Dir"
  proof (intro allI impI)
    fix k assume k: "0 < k \<and> k \<le> length p"
    show "fs1 (take k p) = Some Dir"
    proof (cases "k = length p")
      case True
      then show ?thesis using f1 by simp
    next
      case False
      then have "fs (take k p) = Some Dir" using anc k by simp
      then show ?thesis using f1 fp by auto
    qed
  qed
  then show ?thesis by (simp add: is_dir_iff)
qed

lemma is_dir_path_mkdir:
  "path_mkdir fs p parents exist_ok = Inr fs1 \<Longrightarrow> is_dir fs1 p"
proof (induction fs p parents exist_ok arbitrary: fs1 rule: path_mkdir.induct)
  case (1 fs p parents exist_ok)
  show ?case
  proof (cases "os_mkdir fs p")
    case (Inr fs2)
    then have "fs1 = fs2" using "1.prems" by (subst (asm) path_mkdir.simps) simp
    then show ?thesis using Inr is_dir_os_mkdir by simp
  next
    case (Inl e)
    show ?thesis
    proof (cases "\<exists>m. e = FileNotFoundError m")
      case True
      then obtain m where m: "e = FileNotFoundError m" by blast
      have pp: "\<not> (\<not> parents \<or> p = [])"
        using "1.prems" Inl m by (subst (asm) path_mkdir.simps) (auto split: if_splits)
      then obtain fs2 where f2: "path_mkdir fs (butlast p) True True = Inr fs2"
        and r: "path_mkdir fs2 p False exist_ok = Inr fs1"
        using "1.prems" Inl m by (subst (asm) path_mkdir.simps) (auto split: if_splits sum.splits)
      show ?thesis using "1.IH"(2) [OF Inl m pp f2 r] .
    next
      case False
      then have "exist_ok \<and> is_dir fs p \<and> fs1 = fs"
        using "1.prems" Inl by (subst (asm) path_mkdir.simps) (cases e; auto split: if_splits)
      then show ?thesis by simp
    qed
  qed
qed

lemma path_mkdir_exists:
  "is_dir fs p \<Longrightarrow> path_mkdir fs p parents False = Inl (FileExistsError (path_str p))"
  by (subst path_mkdir.simps) (auto simp: os_mkdir_def is_dir_def split: option.splits)



subsection \<open>A second save into the same directory\<close>

text \<open>
  The timestamp a save uses (the argument, or the clock when it is None), and two
  timestamps that agree down to the second.
\<close>

definition effective_timestamp :: "attempt_env \<Rightarrow> save_args \<Rightarrow> datetime" where
  "effective_timestamp env a = (case sa_timestamp a of None \<Rightarrow> utcnow env | Some t \<Rightarrow> t)"

definition same_second :: "datetime \<Rightarrow> datetime \<Rightarrow> bool" where
  "same_second t1 t2 =
     (year t1 = year t2 \<and> month t1 = month t2 \<and> day t1 = day t2 \<and>
      hour t1 = hour t2 \<and> minute t1 = minute t2 \<and> second t1 = second t2)"

lemma save_try_dir:
  assumes "save_backup_try env sm a fs = (Inr v, fs1)"
  shows "is_dir fs1 (get_backup_path sm (sa_vendor a) (sa_device_id a) (effective_timestamp env a))"
proof -
  let ?d = "get_backup_path sm (sa_vendor a) (sa_device_id a) (effective_timestamp env a)"
  obtain f1 where m: "path_mkdir fs ?d True False = Inr f1"
    using assms by (auto simp: save_backup_try_def effective_timestamp_def Let_def split: sum.splits)
  have d1: "is_dir f1 ?d" using m by (rule is_dir_path_mkdir)
  show ?thesis
    using assms m d1
    by (auto simp: save_backup_try_def effective_timestamp_def Let_def
          split: sum.splits dest!: is_dir_write_file [where d = ?d] is_dir_os_chmod [where d = ?d])
qed

lemma save_success_try:
  "save_backup env sm a fs = (r, fs1) \<Longrightarrow> sr_success r \<Longrightarrow> \<exists>v. save_backup_try env sm a fs = (Inr v, fs1)"
  by (auto simp: save_backup_def init_save_result_def split: prod.splits sum.splits exn.splits)

lemma same_second_dir: "same_second t1 t2 \<Longrightarrow> strftime_dir t1 = strftime_dir t2"
  by (simp add: same_second_def strftime_dir_def)

text \<open>
  C4. For a fixed store, vendor and device id, and two timestamps that agree to the
  second: after a \<open>save_backup\<close> that succeeded, a second \<open>save_backup\<close>
  (whatever its content, extension, environment or microseconds) does not succeed; its
  result carries the error \<open>Backup directory already exists (immutability violation)\<close>
  and it returns the filesystem exactly as the first call left it, so the three files of
  the first call are unchanged. Hence the two calls never both succeed.
\<close>

theorem save_backup_twice:
  assumes "save_backup env1 sm a1 fs = (r1, fs1)" and "sr_success r1"
    and "sa_vendor a2 = sa_vendor a1" and "sa_device_id a2 = sa_device_id a1"
    and "same_second (effective_timestamp env2 a2) (effective_timestamp env1 a1)"
  shows "save_backup env2 sm a2 fs1 =
           (init_save_result\<lparr>sr_error :=
              Some ''Backup directory already exists (immutability violation)''\<rparr>, fs1) \<and>
         \<not> sr_success (fst (save_backup env2 sm a2 fs1))"
proof -
  let ?d = "get_backup_path sm (sa_vendor a1) (sa_device_id a1) (effective_timestamp env1 a1)"
  obtain v where "save_backup_try env1 sm a1 fs = (Inr v, fs1)"
    using save_success_try [OF assms(1,2)] by blast
  then have "is_dir fs1 ?d" by (rule save_try_dir)
  then have mk: "path_mkdir fs1 ?d True False = Inl (FileExistsError (path_str ?d))"
    by (rule path_mkdir_exists)
  have d2: "get_backup_path sm (sa_vendor a2) (sa_device_id a2) (effective_timestamp env2 a2) = ?d"
    using assms(3,4) same_second_dir [OF assms(5)] by (simp add: get_backup_path_def)
  have "save_backup_try env2 sm a2 fs1 = (Inl (FileExistsError (path_str ?d)), fs1)"
    using mk d2 by (simp add: save_backup_try_def effective_timestamp_def Let_def)
  then have eq: "save_backup env2 sm a2 fs1 =
           (init_save_result\<lparr>sr_error :=
              Some ''Backup directory already exists (immutability violation)''\<rparr>, fs1)"
    by (simp add: save_backup_def)
  then show ?thesis by (simp add: init_save_result_def)
qed

theorem save_backup_twice_witness:
  "sr_success (fst (save_backup example_env example_store (example_save_args [99]) example_fs)) \<and>
   sa_vendor ((example_save_args [100])\<lparr>sa_timestamp := Some (example_datetime\<lparr>microsecond := 500\<rparr>)\<rparr>)
     = sa_vendor (example_save_args [99]) \<and>
   sa_device_id ((example_save_args [100])\<lparr>sa_timestamp := Some (example_datetime\<lparr>microsecond := 500\<rparr>)\<rparr>)
     = sa_device_id (example_save_args [99]) \<and>
   same_second
     (effective_timestamp example_env
        ((example_save_args [100])\<lparr>sa_timestamp := Some (example_datetime\<lparr>microsecond := 500\<rparr>)\<rparr>))
     (effective_timestamp example_env (example_save_args [99])) \<and>
   save_backup example_env example_store
     ((example_save_args [100])\<lparr>sa_timestamp := Some (example_datetime\<lparr>microsecond := 500\<rparr>)\<rparr>)
     (snd (save_backup example_env example_store (example_save_args [99]) example_fs))
   = (init_save_result\<lparr>sr_error :=
        Some ''Backup directory already exists (immutability violation)''\<rparr>,
      snd (save_backup example_env example_store (example_save_args [99]) example_fs))"
proof -
  let ?a1 = "example_save_args [99]"
  let ?a2 = "(example_save_args [100])\<lparr>sa_timestamp := Some (example_datetime\<lparr>microsecond := 500\<rparr>)\<rparr>"
  let ?first = "save_backup example_env example_store ?a1 example_fs"
  have p: "?first = (fst ?first, snd ?first)" by simp
  have s: "sr_success (fst ?first)" by code_simp
  have v: "sa_vendor ?a2 = sa_vendor ?a1" by (simp add: example_save_args_def)
  have i: "sa_device_id ?a2 = sa_device_id ?a1" by (simp add: example_save_args_def)
  have ss: "same_second (effective_timestamp example_env ?a2) (effective_timestamp example_env ?a1)"
    by (simp add: same_second_def effective_timestamp_def example_save_args_def example_env_def
          example_datetime_def)
  have t: "save_backup example_env example_store ?a2 (snd ?first)
     = (init_save_result\<lparr>sr_error :=
          Some ''Backup directory already exists (immutability violation)''\<rparr>, snd ?first)"
    using save_backup_twice [OF p s v i ss] by (rule conjunct1)
  show ?thesis by (intro conjI s v i ss t)
qed

subsection \<open>save_backup returns a result for every input\<close>

text \<open>
  C10. \<open>save_backup\<close> returns a result dict for every input and filesystem, and
  what it returns is fixed by what its \<open>try\<close> block did. If the block raised an
  exception, the result is the failure whose error string is the immutability message
  for a FileExistsError and \<open>str(e)\<close> for every other exception, with all other
  fields as initialised, and the filesystem is as the block left it. If the block ran
  to its end, the result is the success carrying the paths, checksum and size, with the
  error None. In particular a backup directory that already exists gives the
  immutability failure and an untouched filesystem. So the result is a success exactly
  when its error is None, and exactly when the block raised nothing.
\<close>

theorem save_backup_total:
  "(\<forall>e fs1. save_backup_try env sm a fs = (Inl e, fs1) \<longrightarrow>
       save_backup env sm a fs =
         (init_save_result\<lparr>sr_error := Some (case e of
              FileExistsError _ \<Rightarrow> ''Backup directory already exists (immutability violation)''
            | _ \<Rightarrow> str_exn e)\<rparr>, fs1)) \<and>
   (\<forall>file_path metadata_path checksum_path checksum file_size fs1.
       save_backup_try env sm a fs
         = (Inr (file_path, metadata_path, checksum_path, checksum, file_size), fs1) \<longrightarrow>
       save_backup env sm a fs =
         (\<lparr>sr_success = True, sr_file_path = Some file_path,
           sr_metadata_path = Some metadata_path, sr_checksum_path = Some checksum_path,
           sr_checksum = Some checksum, sr_error = None, sr_file_size = Some file_size\<rparr>, fs1)) \<and>
   (is_dir fs (get_backup_path sm (sa_vendor a) (sa_device_id a) (effective_timestamp env a)) \<longrightarrow>
       save_backup env sm a fs =
         (init_save_result\<lparr>sr_error :=
            Some ''Backup directory already exists (immutability violation)''\<rparr>, fs)) \<and>
   sr_success (fst (save_backup env sm a fs)) = (sr_error (fst (save_backup env sm a fs)) = None) \<and>
   sr_success (fst (save_backup env sm a fs)) = (\<exists>v. fst (save_backup_try env sm a fs) = Inr v)"
proof (intro conjI allI impI)
  fix e fs1 assume "save_backup_try env sm a fs = (Inl e, fs1)"
  then show "save_backup env sm a fs =
         (init_save_result\<lparr>sr_error := Some (case e of
              FileExistsError _ \<Rightarrow> ''Backup directory already exists (immutability violation)''
            | _ \<Rightarrow> str_exn e)\<rparr>, fs1)"
    by (cases e) (simp_all add: save_backup_def)
next
  fix file_path metadata_path checksum_path checksum file_size fs1
  assume "save_backup_try env sm a fs
         = (Inr (file_path, metadata_path, checksum_path, checksum, file_size), fs1)"
  then show "save_backup env sm a fs =
         (\<lparr>sr_success = True, sr_file_path = Some file_path,
           sr_metadata_path = Some metadata_path, sr_checksum_path = Some checksum_path,
           sr_checksum = Some checksum, sr_error = None, sr_file_size = Some file_size\<rparr>, fs1)"
    by (simp add: save_backup_def init_save_result_def)
next
  let ?d = "get_backup_path sm (sa_vendor a) (sa_device_id a) (effective_timestamp env a)"
  assume "is_dir fs ?d"
  then have "path_mkdir fs ?d True False = Inl (FileExistsError (path_str ?d))"
    by (rule path_mkdir_exists)
  then have "save_backup_try env sm a fs = (Inl (FileExistsError (path_str ?d)), fs)"
    by (simp add: save_backup_try_def effective_timestamp_def Let_def)
  then show "save_backup env sm a fs =
         (init_save_result\<lparr>sr_error :=
            Some ''Backup directory already exists (immutability violation)''\<rparr>, fs)"
    by (simp add: save_backup_def)
next
  show "sr_success (fst (save_backup env sm a fs)) = (sr_error (fst (save_backup env sm a fs)) = None)"
    by (simp add: save_backup_def init_save_result_def split: prod.splits sum.splits exn.splits)
next
  show "sr_success (fst (save_backup env sm a fs)) = (\<exists>v. fst (save_backup_try env sm a fs) = Inr v)"
    by (simp add: save_backup_def init_save_result_def split: prod.splits sum.splits exn.splits)
qed


theorem save_backup_total_witness:
  "fst (save_backup_try example_env example_store (example_save_args [99])
          (example_fs([''srv'', ''storage'', ''cisco''] \<mapsto> File [] 420)))
     = Inl (NotADirectoryError ''srv/storage/cisco'') \<and>
   fst (save_backup example_env example_store (example_save_args [99])
          (example_fs([''srv'', ''storage'', ''cisco''] \<mapsto> File [] 420)))
     = init_save_result\<lparr>sr_error := Some ''srv/storage/cisco''\<rparr> \<and>
   fst (save_backup_try example_env example_store (example_save_args [99]) example_fs)
     = Inr (''cisco/7/20240102_030405/config.txt'', ''cisco/7/20240102_030405/metadata.json'',
            ''cisco/7/20240102_030405/checksum.sha256'', ''63'', 1) \<and>
   fst (save_backup example_env example_store (example_save_args [99]) example_fs)
     = \<lparr>sr_success = True, sr_file_path = Some ''cisco/7/20240102_030405/config.txt'',
        sr_metadata_path = Some ''cisco/7/20240102_030405/metadata.json'',
        sr_checksum_path = Some ''cisco/7/20240102_030405/checksum.sha256'',
        sr_checksum = Some ''63'', sr_error = None, sr_file_size = Some 1\<rparr> \<and>
   is_dir (snd (save_backup_try example_env example_store (example_save_args [99]) example_fs))
     (get_backup_path example_store (sa_vendor (example_save_args [100]))
        (sa_device_id (example_save_args [100]))
        (effective_timestamp example_env (example_save_args [100]))) \<and>
   fst (save_backup example_env example_store (example_save_args [100])
          (snd (save_backup_try example_env example_store (example_save_args [99]) example_fs)))
     = init_save_result\<lparr>sr_error :=
         Some ''Backup directory already exists (immutability violation)''\<rparr>"
proof -
  let ?bad = "save_backup_try example_env example_store (example_save_args [99])
          (example_fs([''srv'', ''storage'', ''cisco''] \<mapsto> File [] 420))"
  let ?ok = "save_backup_try example_env example_store (example_save_args [99]) example_fs"
  let ?v = "(''cisco/7/20240102_030405/config.txt'', ''cisco/7/20240102_030405/metadata.json'',
            ''cisco/7/20240102_030405/checksum.sha256'', ''63'', 1::nat)"
  let ?d100 = "get_backup_path example_store (sa_vendor (example_save_args [100]))
        (sa_device_id (example_save_args [100]))
        (effective_timestamp example_env (example_save_args [100]))"
  note bad = save_backup_total [where env = example_env and sm = example_store
      and a = "example_save_args [99]"
      and fs = "example_fs([''srv'', ''storage'', ''cisco''] \<mapsto> File [] 420)"]
  note ok = save_backup_total [where env = example_env and sm = example_store
      and a = "example_save_args [99]" and fs = example_fs]
  note again = save_backup_total [where env = example_env and sm = example_store
      and a = "example_save_args [100]" and fs = "snd ?ok"]
  have b1: "fst ?bad = Inl (NotADirectoryError ''srv/storage/cisco'')"
    by code_simp
  have b2: "?bad = (Inl (NotADirectoryError ''srv/storage/cisco''), snd ?bad)"
    by (rule prod_eqI) (simp_all only: b1 fst_conv snd_conv)
  have b3: "save_backup example_env example_store (example_save_args [99])
          (example_fs([''srv'', ''storage'', ''cisco''] \<mapsto> File [] 420))
      = (init_save_result\<lparr>sr_error := Some ''srv/storage/cisco''\<rparr>, snd ?bad)"
    using bad [THEN conjunct1, rule_format, OF b2] by simp
  have b4: "fst (save_backup example_env example_store (example_save_args [99])
          (example_fs([''srv'', ''storage'', ''cisco''] \<mapsto> File [] 420)))
     = init_save_result\<lparr>sr_error := Some ''srv/storage/cisco''\<rparr>"
    by (simp only: b3 fst_conv)
  have o1: "fst ?ok = Inr ?v"
    by code_simp
  have o2: "?ok = (Inr ?v, snd ?ok)"
    by (rule prod_eqI) (simp_all only: o1 fst_conv snd_conv)
  have o3: "save_backup example_env example_store (example_save_args [99]) example_fs
      = (\<lparr>sr_success = True, sr_file_path = Some ''cisco/7/20240102_030405/config.txt'',
        sr_metadata_path = Some ''cisco/7/20240102_030405/metadata.json'',
        sr_checksum_path = Some ''cisco/7/20240102_030405/checksum.sha256'',
        sr_checksum = Some ''63'', sr_error = None, sr_file_size = Some 1\<rparr>, snd ?ok)"
    using ok [THEN conjunct2, THEN conjunct1, rule_format, OF o2] .
  have o4: "fst (save_backup example_env example_store (example_save_args [99]) example_fs)
     = \<lparr>sr_success = True, sr_file_path = Some ''cisco/7/20240102_030405/config.txt'',
        sr_metadata_path = Some ''cisco/7/20240102_030405/metadata.json'',
        sr_checksum_path = Some ''cisco/7/20240102_030405/checksum.sha256'',
        sr_checksum = Some ''63'', sr_error = None, sr_file_size = Some 1\<rparr>"
    by (simp only: o3 fst_conv)
  have d0: "is_dir (snd ?ok)
     (get_backup_path example_store (sa_vendor (example_save_args [99]))
        (sa_device_id (example_save_args [99]))
        (effective_timestamp example_env (example_save_args [99])))"
    using save_try_dir [OF o2] .
  have same: "get_backup_path example_store (sa_vendor (example_save_args [99]))
        (sa_device_id (example_save_args [99]))
        (effective_timestamp example_env (example_save_args [99])) = ?d100"
    by (simp add: example_save_args_def effective_timestamp_def)
  have d: "is_dir (snd ?ok) ?d100"
    using d0 by (simp only: same)
  have d3: "save_backup example_env example_store (example_save_args [100]) (snd ?ok)
      = (init_save_result\<lparr>sr_error :=
           Some ''Backup directory already exists (immutability violation)''\<rparr>, snd ?ok)"
    using again [THEN conjunct2, THEN conjunct2, THEN conjunct1, rule_format, OF d] .
  have d4: "fst (save_backup example_env example_store (example_save_args [100]) (snd ?ok))
     = init_save_result\<lparr>sr_error :=
         Some ''Backup directory already exists (immutability violation)''\<rparr>"
    by (simp only: d3 fst_conv)
  show ?thesis by (intro conjI b1 b4 o1 o4 d d4)
qed


subsection \<open>Reading a saved artifact back\<close>

text \<open>
  C5 fails on the code. \<open>get_backup\<close> opens the file in text mode, whose universal
  newlines turn \<open>\r\n\<close> and \<open>\r\<close> into \<open>\n\<close>, while \<open>save_backup\<close> wrote the
  text as it was. Saving the four characters a, CR, LF, b succeeds and stores those four
  bytes, and \<open>get_backup\<close> on the returned path gives the three characters a, LF, b.
\<close>

theorem get_backup_not_identical:
  "sr_success (fst (save_backup example_env example_store (example_save_args [97, 13, 10, 98]) example_fs)) \<and>
   sr_file_path (fst (save_backup example_env example_store (example_save_args [97, 13, 10, 98]) example_fs))
     = Some ''cisco/7/20240102_030405/config.txt'' \<and>
   snd (save_backup example_env example_store (example_save_args [97, 13, 10, 98]) example_fs)
     [''srv'', ''storage'', ''cisco'', ''7'', ''20240102_030405'', ''config.txt'']
     = Some (File [CHR 0x61, CHR 0x0D, CHR 0x0A, CHR 0x62] 292) \<and>
   get_backup example_store ''cisco/7/20240102_030405/config.txt''
     (snd (save_backup example_env example_store (example_save_args [97, 13, 10, 98]) example_fs))
     = Inr (Some [97, 10, 98])"
proof (intro conjI)
  show "sr_success (fst (save_backup example_env example_store (example_save_args [97, 13, 10, 98]) example_fs))"
    by code_simp
  show "sr_file_path (fst (save_backup example_env example_store (example_save_args [97, 13, 10, 98]) example_fs))
     = Some ''cisco/7/20240102_030405/config.txt''"
    by code_simp
  show "snd (save_backup example_env example_store (example_save_args [97, 13, 10, 98]) example_fs)
     [''srv'', ''storage'', ''cisco'', ''7'', ''20240102_030405'', ''config.txt'']
     = Some (File [CHR 0x61, CHR 0x0D, CHR 0x0A, CHR 0x62] 292)"
    by code_simp
  show "get_backup example_store ''cisco/7/20240102_030405/config.txt''
     (snd (save_backup example_env example_store (example_save_args [97, 13, 10, 98]) example_fs))
     = Inr (Some [97, 10, 98])"
    by code_simp
qed



section \<open>app/collector.py: the backup collector\<close>

text \<open>
  \<open>device\<close> is the Device row handed to the collector; \<open>backup_history\<close> is a
  BackupHistory object. The collector's state holds what it mutates: the storage
  filesystem, the BackupHistory objects in the order of their creation (an object is
  referred to by its position), the device's last backup status, the audit events, and
  a count of the \<open>adapter.backup()\<close> calls made so far (the count is not in the
  source; the \<open>n\<close>-th call sees the environment \<open>world n\<close>).
\<close>

record device =
  dev_id :: int
  dev_name :: string
  dev_vendor :: string
  dev_ip_address :: string
  dev_port :: "int option"
  dev_connection_type :: string
  dev_username :: string
  dev_password :: string
  dev_enable_password :: "string option"

record backup_history =
  bh_id :: "nat option"
  bh_device_id :: int
  bh_device_name :: string
  bh_device_ip :: "string option"
  bh_vendor :: string
  bh_connection_type :: "string option"
  bh_backup_command :: "string option"
  bh_status :: string
  bh_started_at :: datetime
  bh_completed_at :: "datetime option"
  bh_execution_time_seconds :: "nat option"
  bh_file_path :: "string option"
  bh_file_size_bytes :: "nat option"
  bh_checksum_sha256 :: "string option"
  bh_error_message :: "string option"
  bh_retry_count :: int
  bh_triggered_by :: string

datatype audit_event =
    BackupStart int string string
  | BackupComplete int string bool "string option"

record collector_state =
  cs_fs :: filesystem
  cs_histories :: "backup_history list"
  cs_device_status :: "string option"
  cs_audit :: "audit_event list"
  cs_attempts :: nat

record collector =
  storage :: storage_manager
  db_session :: bool

record collect_result =
  cr_success :: bool
  cr_history_id :: "nat option"
  cr_file_path :: "string option"
  cr_checksum :: "string option"
  cr_error :: "string option"
  cr_device_id :: int
  cr_device_name :: string

definition get_vendor_config :: "string \<Rightarrow> vendor_config option" where
  "get_vendor_config vendor = VENDOR_COMMANDS (lower vendor)"

definition prepare_device_info :: "device \<Rightarrow> device_info" where
  "prepare_device_info dev =
     \<lparr>di_device_id = dev_id dev, di_ip_address = dev_ip_address dev, di_port = dev_port dev,
      di_username = dev_username dev, di_password = dev_password dev,
      di_enable_password = dev_enable_password dev,
      di_connection_type = dev_connection_type dev\<rparr>"

text \<open>
  \<open>_create_backup_history\<close>: the new object is appended; with a database session it
  gets the next id at the commit, without one its id stays None.
\<close>

definition create_backup_history :: "attempt_env \<Rightarrow> collector \<Rightarrow> device \<Rightarrow> vendor_config \<Rightarrow> string \<Rightarrow> collector_state \<Rightarrow> nat \<times> collector_state" where
  "create_backup_history env c dev vendor_config triggered_by s =
     (let history =
            \<lparr>bh_id = (if db_session c then Some (Suc (length (cs_histories s))) else None),
             bh_device_id = dev_id dev, bh_device_name = dev_name dev,
             bh_device_ip = Some (dev_ip_address dev), bh_vendor = dev_vendor dev,
             bh_connection_type = Some (dev_connection_type dev),
             bh_backup_command = Some (backup_command vendor_config),
             bh_status = ''running'', bh_started_at = utcnow env, bh_completed_at = None,
             bh_execution_time_seconds = None, bh_file_path = None, bh_file_size_bytes = None,
             bh_checksum_sha256 = None, bh_error_message = None, bh_retry_count = 0,
             bh_triggered_by = triggered_by\<rparr>
      in (length (cs_histories s), s\<lparr>cs_histories := cs_histories s @ [history]\<rparr>))"

fun starts_with :: "string \<Rightarrow> string \<Rightarrow> bool" where
  "starts_with [] s = True"
| "starts_with (x # xs) [] = False"
| "starts_with (x # xs) (y # ys) = (x = y \<and> starts_with xs ys)"

text \<open>\<open>sub in s\<close> for strings.\<close>

fun contains :: "string \<Rightarrow> string \<Rightarrow> bool" where
  "contains sub [] = (sub = [])"
| "contains sub (c # cs) = (starts_with sub (c # cs) \<or> contains sub cs)"

definition str_opt :: "string option \<Rightarrow> string" where
  "str_opt m = (case m of None \<Rightarrow> ''None'' | Some t \<Rightarrow> t)"

definition update_history_success :: "attempt_env \<Rightarrow> nat \<Rightarrow> nat \<Rightarrow> string option \<Rightarrow> nat option \<Rightarrow> string option \<Rightarrow> collector_state \<Rightarrow> collector_state" where
  "update_history_success env h execution_time file_path file_size checksum s =
     s\<lparr>cs_histories := (cs_histories s)[h :=
          (cs_histories s ! h)\<lparr>bh_completed_at := Some (utcnow env),
             bh_execution_time_seconds := (if execution_time = 0 then None else Some execution_time),
             bh_status := ''success'', bh_file_path := file_path,
             bh_file_size_bytes := file_size, bh_checksum_sha256 := checksum\<rparr>]\<rparr>"

definition update_history_failure :: "attempt_env \<Rightarrow> nat \<Rightarrow> nat option \<Rightarrow> string option \<Rightarrow> collector_state \<Rightarrow> collector_state" where
  "update_history_failure env h execution_time error_message s =
     s\<lparr>cs_histories := (cs_histories s)[h :=
          (cs_histories s ! h)\<lparr>bh_completed_at := Some (utcnow env),
             bh_execution_time_seconds :=
               (case execution_time of None \<Rightarrow> None
                | Some t \<Rightarrow> if t = 0 then None else Some t),
             bh_status := (if contains ''timeout'' (lower (str_opt error_message))
                           then ''timeout'' else ''failed''),
             bh_error_message := error_message\<rparr>]\<rparr>"

definition update_device_status :: "string \<Rightarrow> collector_state \<Rightarrow> collector_state" where
  "update_device_status status s = s\<lparr>cs_device_status := Some status\<rparr>"

definition audit_log :: "audit_event \<Rightarrow> collector_state \<Rightarrow> collector_state" where
  "audit_log ev s = s\<lparr>cs_audit := cs_audit s @ [ev]\<rparr>"

definition init_collect_result :: "device \<Rightarrow> collect_result" where
  "init_collect_result dev =
     \<lparr>cr_success = False, cr_history_id = None, cr_file_path = None, cr_checksum = None,
      cr_error = None, cr_device_id = dev_id dev, cr_device_name = dev_name dev\<rparr>"

text \<open>The keyword arguments of the collector's call of \<open>save_backup\<close>.\<close>

definition storage_args :: "device \<Rightarrow> vendor_config \<Rightarrow> backup_result \<Rightarrow> save_args" where
  "storage_args dev vendor_config backup_result =
     \<lparr>sa_vendor = dev_vendor dev, sa_device_id = dev_id dev, sa_device_name = dev_name dev,
      sa_device_ip = dev_ip_address dev, sa_connection_type = dev_connection_type dev,
      sa_backup_command = backup_command vendor_config,
      sa_config_output = (case br_output backup_result of None \<Rightarrow> [] | Some out \<Rightarrow> out),
      sa_output_extension = output_extension vendor_config,
      sa_execution_time = br_execution_time backup_result,
      sa_timestamp = None\<rparr>"

text \<open>
  \<open>backup_device\<close> up to the point where the adapter's result is known and, on a
  successful capture, stored. Either the invocation is over (\<open>Finished\<close>: the vendor
  or transport was refused, no adapter exists, or the capture succeeded and the store
  answered), or the adapter failed (\<open>AdapterFailed\<close>, with the result so far, the
  history object and the adapter's result) and the retry branch follows.
\<close>

datatype attempt_outcome =
    Finished collect_result collector_state
  | AdapterFailed collect_result nat backup_result collector_state

definition run_attempt :: "(nat \<Rightarrow> attempt_env) \<Rightarrow> collector \<Rightarrow> device \<Rightarrow> string \<Rightarrow> collector_state \<Rightarrow> attempt_outcome" where
  "run_attempt world c dev triggered_by s =
     (let result = init_collect_result dev;
          env = world (cs_attempts s)
      in case get_vendor_config (dev_vendor dev) of
           None \<Rightarrow> Finished (result\<lparr>cr_error := Some (''Unsupported vendor: '' @ dev_vendor dev)\<rparr>) s
         | Some vendor_config \<Rightarrow>
             if dev_connection_type dev \<notin> set (connection_types vendor_config) then
               Finished (result\<lparr>cr_error :=
                  Some (''Connection type '' @ dev_connection_type dev
                        @ '' not supported for '' @ dev_vendor dev)\<rparr>) s
             else
               (let s1 = audit_log (BackupStart (dev_id dev) (dev_name dev) triggered_by) s;
                    (h, s2) = create_backup_history env c dev vendor_config triggered_by s1;
                    result1 = result\<lparr>cr_history_id := bh_id (cs_histories s2 ! h)\<rparr>;
                    device_info = prepare_device_info dev
                in case get_adapter (dev_vendor dev) of
                     Inl e \<Rightarrow>
                       Finished (result1\<lparr>cr_error := Some (str_exn e)\<rparr>)
                         (audit_log (BackupComplete (dev_id dev) (dev_name dev) False (Some (str_exn e)))
                            (update_device_status ''failed''
                               (update_history_failure env h None (Some (str_exn e)) s2)))
                   | Inr cls \<Rightarrow>
                       (let backup_result = fst (backup env cls device_info new_adapter);
                            s3 = s2\<lparr>cs_attempts := Suc (cs_attempts s2)\<rparr>
                        in if br_success backup_result then
                             (let (storage_result, fs1) =
                                    save_backup env (storage c)
                                      (storage_args dev vendor_config backup_result) (cs_fs s3);
                                  s4 = s3\<lparr>cs_fs := fs1\<rparr>
                              in if sr_success storage_result then
                                   Finished (result1\<lparr>cr_success := True,
                                                      cr_file_path := sr_file_path storage_result,
                                                      cr_checksum := sr_checksum storage_result\<rparr>)
                                     (audit_log (BackupComplete (dev_id dev) (dev_name dev) True None)
                                        (update_device_status ''success''
                                           (update_history_success env h
                                              (br_execution_time backup_result)
                                              (sr_file_path storage_result)
                                              (sr_file_size storage_result)
                                              (sr_checksum storage_result) s4)))
                                 else
                                   (let err = ''Storage error: '' @ str_opt (sr_error storage_result)
                                    in Finished (result1\<lparr>cr_error := Some err\<rparr>)
                                         (audit_log (BackupComplete (dev_id dev) (dev_name dev) False (Some err))
                                            (update_device_status ''failed''
                                               (update_history_failure env h None (Some err) s4)))))
                           else
                             AdapterFailed (result1\<lparr>cr_error := br_error backup_result\<rparr>)
                               h backup_result s3)))"

text \<open>The end of the failure branch: history, device status and audit are updated.\<close>

definition finish_failure :: "attempt_env \<Rightarrow> device \<Rightarrow> nat \<Rightarrow> backup_result \<Rightarrow> collect_result \<Rightarrow> collector_state \<Rightarrow> collect_result \<times> collector_state" where
  "finish_failure env dev h backup_result result s =
     (result,
      audit_log (BackupComplete (dev_id dev) (dev_name dev) False (cr_error result))
        (update_device_status ''failed''
           (update_history_failure env h (Some (br_execution_time backup_result))
              (cr_error result) s)))"

text \<open>\<open>history.retry_count += 1\<close> and the commit.\<close>

definition count_retry :: "nat \<Rightarrow> collector_state \<Rightarrow> collector_state" where
  "count_retry h s =
     s\<lparr>cs_histories := (cs_histories s)[h :=
          (cs_histories s ! h)\<lparr>bh_retry_count := bh_retry_count (cs_histories s ! h) + 1\<rparr>]\<rparr>"

function backup_device :: "(nat \<Rightarrow> attempt_env) \<Rightarrow> collector \<Rightarrow> device \<Rightarrow> string \<Rightarrow> bool \<Rightarrow> collector_state \<Rightarrow> collect_result \<times> collector_state" where
  "backup_device world c dev triggered_by retry s =
     (case run_attempt world c dev triggered_by s of
        Finished result s1 \<Rightarrow> (result, s1)
      | AdapterFailed result h backup_result s1 \<Rightarrow>
          if retry \<and> bh_retry_count (cs_histories s1 ! h) < MAX_RETRY then
            (let s2 = count_retry h s1;
                 retry_result = backup_device world c dev triggered_by False s2
             in if cr_success (fst retry_result) then retry_result
                else finish_failure (world (cs_attempts (snd retry_result))) dev h backup_result
                       (result\<lparr>cr_error :=
                          Some (''Failed after retry: '' @ str_opt (cr_error (fst retry_result)))\<rparr>)
                       (snd retry_result))
          else finish_failure (world (cs_attempts s1)) dev h backup_result result s1)"
  by pat_completeness auto
termination
  by (relation "measure (\<lambda>(world, c, dev, triggered_by, retry, s). if retry then 1 else 0)") auto

declare backup_device.simps [simp del]


text \<open>
  The state an attempt leaves behind, whichever way it ended, and the bound the model of
  \<open>BackupHistory.retry_count\<close> is to satisfy (\<open># Max 1 retry\<close> in models.py).
\<close>

fun outcome_state :: "attempt_outcome \<Rightarrow> collector_state" where
  "outcome_state (Finished r s) = s"
| "outcome_state (AdapterFailed r h b s) = s"

definition retry_count_ok :: "backup_history \<Rightarrow> bool" where
  "retry_count_ok h = (0 \<le> bh_retry_count h \<and> bh_retry_count h \<le> MAX_RETRY)"


subsection \<open>A concrete device, collector and worlds for the examples\<close>

definition example_device :: "string \<Rightarrow> device" where
  "example_device vendor =
     \<lparr>dev_id = 7, dev_name = ''R1'', dev_vendor = vendor, dev_ip_address = ''192.0.2.7'',
      dev_port = None, dev_connection_type = ''ssh'', dev_username = ''u'', dev_password = ''p'',
      dev_enable_password = None\<rparr>"

definition example_collector :: collector where
  "example_collector = \<lparr>storage = example_store, db_session = True\<rparr>"

definition example_state :: collector_state where
  "example_state =
     \<lparr>cs_fs = example_fs, cs_histories = [], cs_device_status = None, cs_audit = [], cs_attempts = 0\<rparr>"

definition ftp_down_world :: "nat \<Rightarrow> attempt_env" where
  "ftp_down_world n = example_env\<lparr>ftp_service_active := False\<rparr>"


definition blocked_state :: collector_state where
  "blocked_state = example_state\<lparr>cs_fs := example_fs([''srv'', ''storage'', ''cisco''] \<mapsto> File [] 420)\<rparr>"

definition steady_world :: "nat \<Rightarrow> attempt_env" where
  "steady_world n = example_env"


section \<open>Properties of the collector\<close>

subsection \<open>What one attempt and one call change\<close>

lemma run_attempt_frame:
  "take (length (cs_histories s)) (cs_histories (outcome_state (run_attempt w c dev tb s))) = cs_histories s \<and>
   length (cs_histories (outcome_state (run_attempt w c dev tb s))) \<le> Suc (length (cs_histories s)) \<and>
   cs_attempts s \<le> cs_attempts (outcome_state (run_attempt w c dev tb s)) \<and>
   cs_attempts (outcome_state (run_attempt w c dev tb s)) \<le> Suc (cs_attempts s) \<and>
   list_all (\<lambda>h. bh_retry_count h = 0) (drop (length (cs_histories s)) (cs_histories (outcome_state (run_attempt w c dev tb s))))"
  by (simp add: run_attempt_def Let_def create_backup_history_def audit_log_def update_device_status_def
        update_history_failure_def update_history_success_def
        split: option.splits sum.splits prod.splits)

lemma run_attempt_failed:
  assumes "run_attempt w c dev tb s = AdapterFailed r h b s1"
  shows "h = length (cs_histories s) \<and> length (cs_histories s1) = Suc h \<and>
         take h (cs_histories s1) = cs_histories s \<and>
         cs_attempts s1 = Suc (cs_attempts s) \<and>
         bh_retry_count (cs_histories s1 ! h) = 0 \<and> bh_status (cs_histories s1 ! h) = ''running'' \<and>
         bh_completed_at (cs_histories s1 ! h) = None \<and>
         cr_history_id r = bh_id (cs_histories s1 ! h) \<and> \<not> cr_success r \<and>
         cr_error r = br_error b \<and> \<not> br_success b \<and> cs_fs s1 = cs_fs s \<and>
         bh_id (cs_histories s1 ! h) = (if db_session c then Some (Suc h) else None)"
  using assms
  by (auto simp: run_attempt_def Let_def create_backup_history_def audit_log_def init_collect_result_def
        split: option.splits sum.splits prod.splits if_splits)


lemma map_update_same: "(map f xs)[h := f (xs ! h)] = map f xs"
proof (cases "h < length xs")
  case True
  then have "f (xs ! h) = map f xs ! h" by simp
  then show ?thesis by (simp only: list_update_id)
next
  case False
  then have "length (map f xs) \<le> h" by simp
  then show ?thesis by (rule list_update_beyond)
qed

lemma finish_failure_frame:
  "fst (finish_failure env dev h b r s) = r \<and>
   length (cs_histories (snd (finish_failure env dev h b r s))) = length (cs_histories s) \<and>
   cs_attempts (snd (finish_failure env dev h b r s)) = cs_attempts s \<and>
   cs_fs (snd (finish_failure env dev h b r s)) = cs_fs s \<and>
   map bh_retry_count (cs_histories (snd (finish_failure env dev h b r s))) = map bh_retry_count (cs_histories s) \<and>
   take h (cs_histories (snd (finish_failure env dev h b r s))) = take h (cs_histories s)"
  by (simp add: finish_failure_def audit_log_def update_device_status_def update_history_failure_def
        map_update map_update_same)

lemma backup_device_no_retry:
  "backup_device w c dev tb False s =
     (case run_attempt w c dev tb s of
        Finished r s1 \<Rightarrow> (r, s1)
      | AdapterFailed r h b s1 \<Rightarrow> finish_failure (w (cs_attempts s1)) dev h b r s1)"
  by (subst backup_device.simps) (simp split: attempt_outcome.splits)

lemma backup_device_retry:
  "backup_device w c dev tb True s =
     (case run_attempt w c dev tb s of
        Finished r s1 \<Rightarrow> (r, s1)
      | AdapterFailed r h b s1 \<Rightarrow>
          if cr_success (fst (backup_device w c dev tb False (count_retry h s1)))
          then backup_device w c dev tb False (count_retry h s1)
          else finish_failure
                 (w (cs_attempts (snd (backup_device w c dev tb False (count_retry h s1))))) dev h b
                 (r\<lparr>cr_error := Some (''Failed after retry: ''
                      @ str_opt (cr_error (fst (backup_device w c dev tb False (count_retry h s1)))))\<rparr>)
                 (snd (backup_device w c dev tb False (count_retry h s1))))"
proof (cases "run_attempt w c dev tb s")
  case (Finished r s1)
  then show ?thesis by (subst backup_device.simps) simp
next
  case (AdapterFailed r h b s1)
  then have "bh_retry_count (cs_histories s1 ! h) = 0" using run_attempt_failed by blast
  then show ?thesis using AdapterFailed
    by (subst backup_device.simps) (simp add: MAX_RETRY_def Let_def)
qed


lemma list_all_retry_update:
  "list_all (\<lambda>h. bh_retry_count h = 0) (drop n xs) \<Longrightarrow>
   map bh_retry_count ys = map bh_retry_count xs \<Longrightarrow>
   list_all (\<lambda>h. bh_retry_count h = 0) (drop n ys)"
proof -
  assume a: "list_all (\<lambda>h. bh_retry_count h = 0) (drop n xs)"
    and m: "map bh_retry_count ys = map bh_retry_count xs"
  have "list_all (\<lambda>x. x = 0) (drop n (map bh_retry_count xs))"
    using a by (simp add: drop_map list_all_iff)
  then have "list_all (\<lambda>x. x = 0) (drop n (map bh_retry_count ys))"
    using m by simp
  then show ?thesis by (simp add: drop_map list_all_iff)
qed

lemma backup_device_no_retry_frame:
  "take (length (cs_histories s)) (cs_histories (snd (backup_device w c dev tb False s))) = cs_histories s \<and>
   length (cs_histories (snd (backup_device w c dev tb False s))) \<le> Suc (length (cs_histories s)) \<and>
   cs_attempts s \<le> cs_attempts (snd (backup_device w c dev tb False s)) \<and>
   cs_attempts (snd (backup_device w c dev tb False s)) \<le> Suc (cs_attempts s) \<and>
   list_all (\<lambda>h. bh_retry_count h = 0)
     (drop (length (cs_histories s)) (cs_histories (snd (backup_device w c dev tb False s))))"
proof (cases "run_attempt w c dev tb s")
  case (Finished r s1)
  then show ?thesis
    using run_attempt_frame [of s w c dev tb] by (simp add: backup_device_no_retry)
next
  case (AdapterFailed r h b s1)
  note f = run_attempt_frame [of s w c dev tb, unfolded AdapterFailed outcome_state.simps]
  note a = run_attempt_failed [OF AdapterFailed]
  note ff = finish_failure_frame [of "w (cs_attempts s1)" dev h b r s1]
  have eq: "backup_device w c dev tb False s = finish_failure (w (cs_attempts s1)) dev h b r s1"
    using AdapterFailed by (simp add: backup_device_no_retry)
  have l: "list_all (\<lambda>h. bh_retry_count h = 0)
     (drop (length (cs_histories s)) (cs_histories (snd (finish_failure (w (cs_attempts s1)) dev h b r s1))))"
    using list_all_retry_update [OF f [THEN conjunct2, THEN conjunct2, THEN conjunct2, THEN conjunct2]]
      ff by blast
  show ?thesis
    unfolding eq using f a ff l by simp
qed

lemma count_retry_frame:
  "h < length (cs_histories s) \<Longrightarrow>
   length (cs_histories (count_retry h s)) = length (cs_histories s) \<and>
   take h (cs_histories (count_retry h s)) = take h (cs_histories s) \<and>
   cs_attempts (count_retry h s) = cs_attempts s \<and> cs_fs (count_retry h s) = cs_fs s \<and>
   bh_retry_count (cs_histories (count_retry h s) ! h) = bh_retry_count (cs_histories s ! h) + 1 \<and>
   bh_status (cs_histories (count_retry h s) ! h) = bh_status (cs_histories s ! h) \<and>
   bh_completed_at (cs_histories (count_retry h s) ! h) = bh_completed_at (cs_histories s ! h) \<and>
   bh_id (cs_histories (count_retry h s) ! h) = bh_id (cs_histories s ! h)"
  by (simp add: count_retry_def)


lemma run_attempt_validated:
  assumes vc: "get_vendor_config (dev_vendor dev) = Some vc"
    and ct: "dev_connection_type dev \<in> set (connection_types vc)"
    and ga: "get_adapter (dev_vendor dev) = Inr cls"
  shows "(\<not> br_success (fst (backup (w (cs_attempts s)) cls (prepare_device_info dev) new_adapter)) \<longrightarrow>
            (\<exists>r h s1. run_attempt w c dev tb s
               = AdapterFailed r h (fst (backup (w (cs_attempts s)) cls (prepare_device_info dev) new_adapter)) s1)) \<and>
         (br_success (fst (backup (w (cs_attempts s)) cls (prepare_device_info dev) new_adapter)) \<longrightarrow>
            (\<exists>r s1. run_attempt w c dev tb s = Finished r s1 \<and>
               cs_attempts s1 = Suc (cs_attempts s) \<and>
               cr_success r = sr_success (fst (save_backup (w (cs_attempts s)) (storage c)
                    (storage_args dev vc (fst (backup (w (cs_attempts s)) cls (prepare_device_info dev) new_adapter)))
                    (cs_fs s))) \<and>
               (\<not> cr_success r \<longrightarrow>
                  cr_error r = Some (''Storage error: '' @ str_opt (sr_error (fst (save_backup (w (cs_attempts s)) (storage c)
                    (storage_args dev vc (fst (backup (w (cs_attempts s)) cls (prepare_device_info dev) new_adapter)))
                    (cs_fs s))))))))"
  using vc ct ga
  by (simp add: run_attempt_def Let_def create_backup_history_def audit_log_def init_collect_result_def
        update_device_status_def update_history_failure_def update_history_success_def
        split: prod.splits)

lemma backup_device_retry_frame:
  assumes af: "run_attempt w c dev tb s = AdapterFailed r h b s1"
  shows "take (length (cs_histories s)) (cs_histories (snd (backup_device w c dev tb True s))) = cs_histories s \<and>
         length (cs_histories s) < length (cs_histories (snd (backup_device w c dev tb True s))) \<and>
         length (cs_histories (snd (backup_device w c dev tb True s))) \<le> length (cs_histories s) + 2 \<and>
         bh_retry_count (cs_histories (snd (backup_device w c dev tb True s)) ! length (cs_histories s)) = 1 \<and>
         list_all (\<lambda>h. bh_retry_count h = 0)
           (drop (Suc (length (cs_histories s))) (cs_histories (snd (backup_device w c dev tb True s)))) \<and>
         cs_attempts (snd (backup_device w c dev tb True s))
           = cs_attempts (snd (backup_device w c dev tb False (count_retry h s1))) \<and>
         Suc (cs_attempts s) \<le> cs_attempts (snd (backup_device w c dev tb True s)) \<and>
         cs_attempts (snd (backup_device w c dev tb True s)) \<le> cs_attempts s + 2 \<and>
         (cr_success (fst (backup_device w c dev tb True s)) \<longrightarrow>
            backup_device w c dev tb True s = backup_device w c dev tb False (count_retry h s1) \<and>
            bh_status (cs_histories (snd (backup_device w c dev tb True s)) ! length (cs_histories s)) = ''running'' \<and>
            bh_completed_at (cs_histories (snd (backup_device w c dev tb True s)) ! length (cs_histories s)) = None)"
proof -
  let ?n = "length (cs_histories s)"
  let ?s2 = "count_retry h s1"
  let ?RR = "backup_device w c dev tb False ?s2"
  note a = run_attempt_failed [OF af]
  have hn: "h = ?n" using a by simp
  have hl: "h < length (cs_histories s1)" using a by simp
  note cr = count_retry_frame [OF hl]
  note fr = backup_device_no_retry_frame [of ?s2 w c dev tb]
  have len2: "length (cs_histories ?s2) = Suc ?n" using cr a by simp
  have tk: "take (Suc ?n) (cs_histories (snd ?RR)) = cs_histories ?s2"
    using fr len2 by simp
  have lenR: "Suc ?n \<le> length (cs_histories (snd ?RR))"
    using tk len2 by (metis length_take min.cobounded1)
  have nthR: "cs_histories (snd ?RR) ! ?n = cs_histories ?s2 ! ?n"
    using tk by (metis lessI nth_take)
  have tkn: "take ?n (cs_histories (snd ?RR)) = cs_histories s"
  proof -
    have "take ?n (cs_histories (snd ?RR)) = take ?n (take (Suc ?n) (cs_histories (snd ?RR)))"
      by simp
    also have "\<dots> = take ?n (cs_histories ?s2)" using tk by simp
    also have "\<dots> = take ?n (cs_histories s1)" using cr hn by simp
    also have "\<dots> = cs_histories s" using a hn by simp
    finally show ?thesis .
  qed
  have rcR: "bh_retry_count (cs_histories (snd ?RR) ! ?n) = 1"
    using nthR cr a hn by simp
  have stR: "bh_status (cs_histories (snd ?RR) ! ?n) = ''running''"
    and coR: "bh_completed_at (cs_histories (snd ?RR) ! ?n) = None"
    using nthR cr a hn by simp_all
  have dropR: "list_all (\<lambda>h. bh_retry_count h = 0) (drop (Suc ?n) (cs_histories (snd ?RR)))"
    using fr len2 by simp
  have attR: "Suc (cs_attempts s) \<le> cs_attempts (snd ?RR)" "cs_attempts (snd ?RR) \<le> cs_attempts s + 2"
    using fr cr a by simp_all
  have lenR2: "length (cs_histories (snd ?RR)) \<le> ?n + 2"
    using fr len2 by simp
  show ?thesis
  proof (cases "cr_success (fst ?RR)")
    case True
    then have eq: "backup_device w c dev tb True s = ?RR"
      using af by (simp add: backup_device_retry)
    show ?thesis
      unfolding eq using tkn lenR lenR2 rcR dropR attR stR coR by simp
  next
    case False
    let ?r2 = "r\<lparr>cr_error := Some (''Failed after retry: '' @ str_opt (cr_error (fst ?RR)))\<rparr>"
    let ?F = "finish_failure (w (cs_attempts (snd ?RR))) dev h b ?r2 (snd ?RR)"
    have eq: "backup_device w c dev tb True s = ?F"
      using af False by (simp add: backup_device_retry)
    note ff = finish_failure_frame [of "w (cs_attempts (snd ?RR))" dev h b ?r2 "snd ?RR"]
    have ns: "\<not> cr_success (fst ?F)" using ff a by simp
    have m: "map bh_retry_count (cs_histories (snd ?F)) = map bh_retry_count (cs_histories (snd ?RR))"
      using ff by simp
    have lF: "length (cs_histories (snd ?F)) = length (cs_histories (snd ?RR))" using ff by simp
    have rcF: "bh_retry_count (cs_histories (snd ?F) ! ?n) = 1"
    proof -
      have "?n < length (cs_histories (snd ?RR))" using lenR by simp
      then have "bh_retry_count (cs_histories (snd ?F) ! ?n) = map bh_retry_count (cs_histories (snd ?F)) ! ?n"
        using lF by simp
      also have "\<dots> = map bh_retry_count (cs_histories (snd ?RR)) ! ?n" using m by simp
      also have "\<dots> = bh_retry_count (cs_histories (snd ?RR) ! ?n)"
        using \<open>?n < length (cs_histories (snd ?RR))\<close> by simp
      finally show ?thesis using rcR by simp
    qed
    have dF: "list_all (\<lambda>h. bh_retry_count h = 0) (drop (Suc ?n) (cs_histories (snd ?F)))"
      using list_all_retry_update [OF dropR m] .
    have tF: "take ?n (cs_histories (snd ?F)) = cs_histories s"
      using ff hn tkn by simp
    have aF: "cs_attempts (snd ?F) = cs_attempts (snd ?RR)" using ff by simp
    show ?thesis
      unfolding eq using tF lF lenR lenR2 rcF dF aF attR ns by simp
  qed
qed


lemma list_all_drop_Suc: "list_all P (drop n xs) \<Longrightarrow> list_all P (drop (Suc n) xs)"
  using set_drop_subset_set_drop [of n "Suc n" xs] by (auto simp: list_all_iff)

lemma retry_zero_ok: "list_all (\<lambda>h. bh_retry_count h = 0) xs \<Longrightarrow> list_all retry_count_ok xs"
  by (auto simp: list_all_iff retry_count_ok_def MAX_RETRY_def)


lemma zte_precondition_failure:
  "\<not> ftp_service_active env \<Longrightarrow> \<not> br_success (fst (backup env ZTEAdapter info a))"
  by (auto simp: backup_def zte_backup_def zte_backup_try_def get_ftp_config_def
        init_backup_result_def Let_def split: sum.splits prod.splits)

lemma run_attempt_attempts:
  assumes vc: "get_vendor_config (dev_vendor dev) = Some vc"
    and ct: "dev_connection_type dev \<in> set (connection_types vc)"
    and ga: "get_adapter (dev_vendor dev) = Inr cls"
  shows "cs_attempts (snd (backup_device w c dev tb False s)) = Suc (cs_attempts s)"
proof (cases "br_success (fst (backup (w (cs_attempts s)) cls (prepare_device_info dev) new_adapter))")
  case True
  then obtain r s1 where "run_attempt w c dev tb s = Finished r s1" "cs_attempts s1 = Suc (cs_attempts s)"
    using run_attempt_validated [OF vc ct ga, of w s c tb] by blast
  then show ?thesis by (simp add: backup_device_no_retry)
next
  case False
  then obtain r h s1 where af: "run_attempt w c dev tb s
      = AdapterFailed r h (fst (backup (w (cs_attempts s)) cls (prepare_device_info dev) new_adapter)) s1"
    using run_attempt_validated [OF vc ct ga, of w s c tb] by blast
  then show ?thesis
    using run_attempt_failed [OF af]
      finish_failure_frame [of "w (cs_attempts s1)" dev h
        "fst (backup (w (cs_attempts s)) cls (prepare_device_info dev) new_adapter)" r s1]
    by (simp add: backup_device_no_retry)
qed


subsection \<open>The retry is bounded\<close>

text \<open>
  C2. One call of \<open>backup_device\<close>, for every device, world, collector and starting
  state, runs the adapter at most twice when \<open>retry\<close> is set and at most once when it
  is not (the recursive call passes \<open>retry=False\<close>, so a retried attempt that fails is
  not retried again). It appends at most that many history records and leaves the older
  ones as they were. Every record it appends has \<open>0 \<le> retry_count \<le> MAX_RETRY\<close>, and
  every record after the first appended one (the record of the retry, a fresh attempt)
  has \<open>retry_count = 0\<close>. The function is total: the recursion ends.
\<close>

theorem retry_bounded:
  "cs_attempts s \<le> cs_attempts (snd (backup_device w c dev tb retry s)) \<and>
   cs_attempts (snd (backup_device w c dev tb retry s)) \<le> cs_attempts s + (if retry then 2 else 1) \<and>
   length (cs_histories (snd (backup_device w c dev tb retry s)))
     \<le> length (cs_histories s) + (if retry then 2 else 1) \<and>
   take (length (cs_histories s)) (cs_histories (snd (backup_device w c dev tb retry s))) = cs_histories s \<and>
   list_all retry_count_ok
     (drop (length (cs_histories s)) (cs_histories (snd (backup_device w c dev tb retry s)))) \<and>
   list_all (\<lambda>h. bh_retry_count h = 0)
     (drop (Suc (length (cs_histories s))) (cs_histories (snd (backup_device w c dev tb retry s))))"
proof -
  let ?n = "length (cs_histories s)"
  note nf = backup_device_no_retry_frame [of s w c dev tb]
  have no_retry: "cs_attempts s \<le> cs_attempts (snd (backup_device w c dev tb False s)) \<and>
     cs_attempts (snd (backup_device w c dev tb False s)) \<le> cs_attempts s + 1 \<and>
     length (cs_histories (snd (backup_device w c dev tb False s))) \<le> ?n + 1 \<and>
     take ?n (cs_histories (snd (backup_device w c dev tb False s))) = cs_histories s \<and>
     list_all retry_count_ok (drop ?n (cs_histories (snd (backup_device w c dev tb False s)))) \<and>
     list_all (\<lambda>h. bh_retry_count h = 0)
       (drop (Suc ?n) (cs_histories (snd (backup_device w c dev tb False s))))"
    using nf retry_zero_ok [OF nf [THEN conjunct2, THEN conjunct2, THEN conjunct2, THEN conjunct2]]
      list_all_drop_Suc [OF nf [THEN conjunct2, THEN conjunct2, THEN conjunct2, THEN conjunct2]]
    by simp
  show ?thesis
  proof (cases retry)
    case False
    then show ?thesis using no_retry by simp
  next
    case True
    show ?thesis
    proof (cases "run_attempt w c dev tb s")
      case (Finished r s1)
      then have "backup_device w c dev tb True s = backup_device w c dev tb False s"
        by (simp add: backup_device_retry backup_device_no_retry)
      then show ?thesis using True no_retry by simp
    next
      case (AdapterFailed r h b s1)
      note rf = backup_device_retry_frame [OF AdapterFailed]
      let ?hs = "cs_histories (snd (backup_device w c dev tb True s))"
      have lt: "?n < length ?hs" using rf by simp
      have d: "drop ?n ?hs = ?hs ! ?n # drop (Suc ?n) ?hs"
        using lt by (simp add: Cons_nth_drop_Suc)
      have one: "retry_count_ok (?hs ! ?n)"
        using rf by (simp add: retry_count_ok_def MAX_RETRY_def)
      have rest0: "list_all (\<lambda>h. bh_retry_count h = 0) (drop (Suc ?n) ?hs)" using rf by simp
      have ok: "list_all retry_count_ok (drop ?n ?hs)"
        using one retry_zero_ok [OF rest0] by (simp add: d)
      show ?thesis using True rf ok rest0 by simp
    qed
  qed
qed


subsection \<open>A retry that succeeds\<close>




subsection \<open>Which failures are retried\<close>

text \<open>
  C3 (as the code has it). The collector has no error categories: for a device that passes
  validation, every failed adapter attempt is retried once when \<open>retry\<close> is set (two
  attempts) and not at all when it is not (one attempt). A ZTE attempt with the FTP service
  not enabled is such a failed attempt, so it is retried too. A storage failure after a
  successful capture is never retried: the call with \<open>retry=True\<close> does what the
  call with \<open>retry=False\<close> does, makes one adapter attempt and returns a failed result
  whose error is \<open>Storage error: \<close> followed by the store's error.
\<close>

theorem retry_decision:
  assumes vc: "get_vendor_config (dev_vendor dev) = Some vc"
    and ct: "dev_connection_type dev \<in> set (connection_types vc)"
    and ga: "get_adapter (dev_vendor dev) = Inr cls"
  shows "(\<not> br_success (fst (backup (w (cs_attempts s)) cls (prepare_device_info dev) new_adapter)) \<longrightarrow>
            cs_attempts (snd (backup_device w c dev tb True s)) = cs_attempts s + 2 \<and>
            cs_attempts (snd (backup_device w c dev tb False s)) = cs_attempts s + 1) \<and>
         (cls = ZTEAdapter \<and> \<not> ftp_service_active (w (cs_attempts s)) \<longrightarrow>
            \<not> br_success (fst (backup (w (cs_attempts s)) cls (prepare_device_info dev) new_adapter)) \<and>
            cs_attempts (snd (backup_device w c dev tb True s)) = cs_attempts s + 2) \<and>
         (br_success (fst (backup (w (cs_attempts s)) cls (prepare_device_info dev) new_adapter)) \<and>
          \<not> sr_success (fst (save_backup (w (cs_attempts s)) (storage c)
                (storage_args dev vc (fst (backup (w (cs_attempts s)) cls (prepare_device_info dev) new_adapter)))
                (cs_fs s))) \<longrightarrow>
            backup_device w c dev tb True s = backup_device w c dev tb False s \<and>
            cs_attempts (snd (backup_device w c dev tb True s)) = cs_attempts s + 1 \<and>
            \<not> cr_success (fst (backup_device w c dev tb True s)) \<and>
            cr_error (fst (backup_device w c dev tb True s))
              = Some (''Storage error: '' @ str_opt (sr_error (fst (save_backup (w (cs_attempts s)) (storage c)
                  (storage_args dev vc (fst (backup (w (cs_attempts s)) cls (prepare_device_info dev) new_adapter)))
                  (cs_fs s))))))"
proof -
  let ?B = "fst (backup (w (cs_attempts s)) cls (prepare_device_info dev) new_adapter)"
  have retried: "cs_attempts (snd (backup_device w c dev tb True s)) = cs_attempts s + 2"
    if nb: "\<not> br_success ?B"
  proof -
    obtain r h s1 where af: "run_attempt w c dev tb s = AdapterFailed r h ?B s1"
      using run_attempt_validated [OF vc ct ga, of w s c tb] nb by blast
    note a = run_attempt_failed [OF af]
    note rf = backup_device_retry_frame [OF af]
    have hl: "h < length (cs_histories s1)" using a by simp
    have "cs_attempts (snd (backup_device w c dev tb False (count_retry h s1)))
        = Suc (cs_attempts (count_retry h s1))"
      by (rule run_attempt_attempts [OF vc ct ga])
    then show ?thesis using rf count_retry_frame [OF hl] a by simp
  qed
  have once: "cs_attempts (snd (backup_device w c dev tb False s)) = cs_attempts s + 1"
    using run_attempt_attempts [OF vc ct ga, of w c tb s] by simp
  have storage: "backup_device w c dev tb True s = backup_device w c dev tb False s \<and>
            cs_attempts (snd (backup_device w c dev tb True s)) = cs_attempts s + 1 \<and>
            \<not> cr_success (fst (backup_device w c dev tb True s)) \<and>
            cr_error (fst (backup_device w c dev tb True s))
              = Some (''Storage error: '' @ str_opt (sr_error (fst (save_backup (w (cs_attempts s)) (storage c)
                  (storage_args dev vc ?B) (cs_fs s)))))"
    if ok: "br_success ?B" and sf: "\<not> sr_success (fst (save_backup (w (cs_attempts s)) (storage c)
                (storage_args dev vc ?B) (cs_fs s)))"
  proof -
    obtain r s1 where fin: "run_attempt w c dev tb s = Finished r s1"
      and at: "cs_attempts s1 = Suc (cs_attempts s)"
      and sc: "cr_success r = sr_success (fst (save_backup (w (cs_attempts s)) (storage c)
                    (storage_args dev vc ?B) (cs_fs s)))"
      and er: "\<not> cr_success r \<longrightarrow>
                  cr_error r = Some (''Storage error: '' @ str_opt (sr_error (fst (save_backup (w (cs_attempts s)) (storage c)
                    (storage_args dev vc ?B) (cs_fs s)))))"
      using run_attempt_validated [OF vc ct ga, of w s c tb] ok by blast
    show ?thesis using fin at sc er sf by (simp add: backup_device_retry backup_device_no_retry)
  qed
  show ?thesis
    using retried once storage zte_precondition_failure [of "w (cs_attempts s)" "prepare_device_info dev" new_adapter]
    by blast
qed

text \<open>
  The precondition failure of the relay variant is retried: with the FTP service not
  enabled in both attempts, the adapter is run twice and the error is the one of the retry.
\<close>

theorem retry_decision_counterexample:
  "\<not> ftp_service_active (ftp_down_world 0) \<and>
   br_error (fst (backup (ftp_down_world 0) ZTEAdapter
        (prepare_device_info (example_device ''zte'')) new_adapter))
     = Some ''FTP server is not enabled. Enable it in Web UI (ZTE FTP Ingestion)'' \<and>
   cs_attempts (snd (backup_device ftp_down_world example_collector (example_device ''zte'')
        ''manual'' True example_state)) = 2 \<and>
   cr_error (fst (backup_device ftp_down_world example_collector (example_device ''zte'')
        ''manual'' True example_state))
     = Some ''Failed after retry: FTP server is not enabled. Enable it in Web UI (ZTE FTP Ingestion)''"
proof -
  have a: "\<not> ftp_service_active (ftp_down_world 0)" by code_simp
  have b: "br_error (fst (backup (ftp_down_world 0) ZTEAdapter
        (prepare_device_info (example_device ''zte'')) new_adapter))
     = Some ''FTP server is not enabled. Enable it in Web UI (ZTE FTP Ingestion)''" by code_simp
  have c: "cs_attempts (snd (backup_device ftp_down_world example_collector (example_device ''zte'')
        ''manual'' True example_state)) = 2" by code_simp
  have d: "cr_error (fst (backup_device ftp_down_world example_collector (example_device ''zte'')
        ''manual'' True example_state))
     = Some ''Failed after retry: FTP server is not enabled. Enable it in Web UI (ZTE FTP Ingestion)''"
    by code_simp
  show ?thesis by (intro conjI a b c d)
qed

text \<open>
  Two instances: a ZTE device while the FTP service is down, and a Cisco device whose
  vendor directory in the store is a regular file.
\<close>

theorem retry_decision_witness:
  "\<not> ftp_service_active (ftp_down_world 0) \<and>
   \<not> br_success (fst (backup (ftp_down_world 0) ZTEAdapter
        (prepare_device_info (example_device ''zte'')) new_adapter)) \<and>
   cs_attempts (snd (backup_device ftp_down_world example_collector (example_device ''zte'')
        ''manual'' True example_state)) = 2 \<and>
   cs_attempts (snd (backup_device ftp_down_world example_collector (example_device ''zte'')
        ''manual'' False example_state)) = 1 \<and>
   br_success (fst (backup (steady_world 0) CiscoAdapter
        (prepare_device_info (example_device ''cisco'')) new_adapter)) \<and>
   backup_device steady_world example_collector (example_device ''cisco'') ''manual'' True blocked_state
     = backup_device steady_world example_collector (example_device ''cisco'') ''manual'' False blocked_state \<and>
   cs_attempts (snd (backup_device steady_world example_collector (example_device ''cisco'')
        ''manual'' True blocked_state)) = 1 \<and>
   \<not> cr_success (fst (backup_device steady_world example_collector (example_device ''cisco'')
        ''manual'' True blocked_state)) \<and>
   cr_error (fst (backup_device steady_world example_collector (example_device ''cisco'')
        ''manual'' True blocked_state)) = Some ''Storage error: srv/storage/cisco''"
proof -
  let ?zte = "example_device ''zte''"
  let ?cisco = "example_device ''cisco''"
  let ?vz = "\<lparr>connection_types = [''ssh'', ''telnet''], backup_command = ''show running-config'',
        output_extension = ''.txt'', device_type = ''zte_zxros''\<rparr>"
  let ?vc = "\<lparr>connection_types = [''ssh'', ''telnet''], backup_command = ''show running-config'',
        output_extension = ''.txt'', device_type = ''cisco_ios''\<rparr>"
  let ?B = "fst (backup (steady_world 0) CiscoAdapter (prepare_device_info ?cisco) new_adapter)"
  have vz: "get_vendor_config (dev_vendor ?zte) = Some ?vz" by code_simp
  have cz: "dev_connection_type ?zte \<in> set (connection_types ?vz)" by code_simp
  have gz: "get_adapter (dev_vendor ?zte) = Inr ZTEAdapter" by code_simp
  have vc: "get_vendor_config (dev_vendor ?cisco) = Some ?vc" by code_simp
  have ct: "dev_connection_type ?cisco \<in> set (connection_types ?vc)" by code_simp
  have ga: "get_adapter (dev_vendor ?cisco) = Inr CiscoAdapter" by code_simp
  have at: "cs_attempts example_state = 0" by code_simp
  have atb: "cs_attempts blocked_state = 0" by code_simp
  have down: "\<not> ftp_service_active (ftp_down_world 0)" by code_simp
  have ok: "br_success ?B" by code_simp
  have sf: "\<not> sr_success (fst (save_backup (steady_world 0) (storage example_collector)
                (storage_args ?cisco ?vc ?B) (cs_fs blocked_state)))" by code_simp
  have se: "sr_error (fst (save_backup (steady_world 0) (storage example_collector)
                (storage_args ?cisco ?vc ?B) (cs_fs blocked_state))) = Some ''srv/storage/cisco''"
    by code_simp
  note zi = retry_decision [where w = ftp_down_world and c = example_collector
      and tb = "''manual''" and s = example_state, OF vz cz gz, unfolded at]
  note ci = retry_decision [where w = steady_world and c = example_collector
      and tb = "''manual''" and s = blocked_state, OF vc ct ga, unfolded atb]
  note z2 = zi [THEN conjunct2, THEN conjunct1, rule_format, OF conjI, OF refl down]
  note z1 = zi [THEN conjunct1, rule_format, OF z2 [THEN conjunct1]]
  note c3 = ci [THEN conjunct2, THEN conjunct2, rule_format, OF conjI, OF ok sf]
  have w2: "\<not> br_success (fst (backup (ftp_down_world 0) ZTEAdapter
        (prepare_device_info ?zte) new_adapter))" by (rule z2 [THEN conjunct1])
  have w3: "cs_attempts (snd (backup_device ftp_down_world example_collector ?zte
        ''manual'' True example_state)) = 2" using z2 [THEN conjunct2] by simp
  have w4: "cs_attempts (snd (backup_device ftp_down_world example_collector ?zte
        ''manual'' False example_state)) = 1" using z1 [THEN conjunct2] by simp
  have w6: "backup_device steady_world example_collector ?cisco ''manual'' True blocked_state
     = backup_device steady_world example_collector ?cisco ''manual'' False blocked_state"
    by (rule c3 [THEN conjunct1])
  have w7: "cs_attempts (snd (backup_device steady_world example_collector ?cisco
        ''manual'' True blocked_state)) = 1" using c3 [THEN conjunct2, THEN conjunct1] by simp
  have w8: "\<not> cr_success (fst (backup_device steady_world example_collector ?cisco
        ''manual'' True blocked_state))" by (rule c3 [THEN conjunct2, THEN conjunct2, THEN conjunct1])
  have w9: "cr_error (fst (backup_device steady_world example_collector ?cisco
        ''manual'' True blocked_state)) = Some ''Storage error: srv/storage/cisco''"
    using c3 [THEN conjunct2, THEN conjunct2, THEN conjunct2] se by (simp add: str_opt_def)
  show ?thesis by (intro conjI down w2 w3 w4 ok w6 w7 w8 w9)
qed

end
